theory Spec2Isabelle
  imports Complex_Main
begin

section \<open>Particle field\<close>

text \<open>
  The particle simulation of \<^verbatim>\<open>createParticleClass\<close> and \<^verbatim>\<open>ParticleBackground\<close>.
  JavaScript numbers are idealised as real numbers: rounding and overflow of IEEE doubles
  are outside this development. A division whose divisor is zero, which JavaScript
  answers with \<^verbatim>\<open>Infinity\<close> or \<^verbatim>\<open>NaN\<close>, is the value \<open>None\<close>.
\<close>

record particle =
  x :: real
  y :: real
  vx :: real
  vy :: real
  size' :: real
  alpha :: real

text \<open>\<^verbatim>\<open>mouseRef.current\<close>: the pointer position and the pointer-active flag.\<close>

record mouse =
  mouse_x :: real
  mouse_y :: real
  active :: bool

text \<open>The canvas: \<^verbatim>\<open>canvas.width\<close> and \<^verbatim>\<open>canvas.height\<close> are unsigned integers.\<close>

record canvas =
  width :: nat
  height :: nat

definition js_div :: "real \<Rightarrow> real \<Rightarrow> real option" where
  "js_div a b = (if b = 0 then None else Some (a / b))"

text \<open>
  \<^verbatim>\<open>Particle.update()\<close>: advance the position, add the pointer force when the pointer is
  active and \<open>0 < dist < 250\<close>, damp the velocity, wrap the position. The four wrap tests run
  in the order of the source, each on the value the previous one left.
\<close>

definition update :: "canvas \<Rightarrow> mouse \<Rightarrow> particle \<Rightarrow> particle option" where
  "update cv m p =
    (let x1 = x p + vx p;
         y1 = y p + vy p
     in case
          (if active m then
             (let dx = x1 - mouse_x m;
                  dy = y1 - mouse_y m;
                  dist = sqrt (dx * dx + dy * dy);
                  maxDist = 250
              in if dist < maxDist \<and> dist > 0 then
                   (case (js_div (maxDist - dist) maxDist, js_div dx dist, js_div dy dist) of
                      (Some force, Some ux, Some uy) \<Rightarrow>
                        Some (vx p + ux * force * 0.4, vy p + uy * force * 0.4)
                    | _ \<Rightarrow> None)
                 else Some (vx p, vy p))
           else Some (vx p, vy p))
        of
          None \<Rightarrow> None
        | Some (vx1, vy1) \<Rightarrow>
            (let vx2 = vx1 * 0.96;
                 vy2 = vy1 * 0.96;
                 x2 = (if x1 < 0 then real (width cv) else x1);
                 x3 = (if x2 > real (width cv) then 0 else x2);
                 y2 = (if y1 < 0 then real (height cv) else y1);
                 y3 = (if y2 > real (height cv) then 0 else y2)
             in Some (p\<lparr>x := x3, y := y3, vx := vx2, vy := vy2\<rparr>)))"




text \<open>The velocity magnitude of a particle.\<close>

definition speed :: "particle \<Rightarrow> real" where
  "speed p = sqrt (vx p * vx p + vy p * vy p)"

text \<open>
  The distance \<^verbatim>\<open>dist\<close> that \<^verbatim>\<open>update()\<close> computes: from the pointer to the position the
  particle has after its velocity was added.
\<close>

definition pointer_dist :: "mouse \<Rightarrow> particle \<Rightarrow> real" where
  "pointer_dist m p =
     sqrt ((x p + vx p - mouse_x m) * (x p + vx p - mouse_x m)
         + (y p + vy p - mouse_y m) * (y p + vy p - mouse_y m))"

text \<open>The length \<^verbatim>\<open>force * 0.4\<close> of the velocity change at distance \<open>d\<close>.\<close>

definition push_strength :: "real \<Rightarrow> real" where
  "push_strength d = (250 - d) / 250 * 0.4"



section \<open>Particle collection, bursts and timers\<close>

text \<open>\<^verbatim>\<open>window.innerWidth\<close> and \<^verbatim>\<open>window.innerHeight\<close>.\<close>

record window =
  innerWidth :: nat
  innerHeight :: nat




text \<open>
  The state of one mounted \<^verbatim>\<open>ParticleBackground\<close>: the array behind \<^verbatim>\<open>particlesRef\<close>, the
  canvas size, \<^verbatim>\<open>mouseRef.current\<close>, the window size, the pending \<^verbatim>\<open>setTimeout\<close> callbacks
  (each with its due time in milliseconds and the \<^verbatim>\<open>count\<close> its closure captured), the time
  in milliseconds and the number of random draws made.
\<close>

record field =
  particles :: "particle list"
  surface :: canvas
  pointer :: mouse
  win :: window
  timers :: "(nat \<times> nat) list"
  clock :: nat
  drawn :: nat











section \<open>The Web Audio platform\<close>

text \<open>
  The part of the browser's Web Audio interface that the sound code calls. A context owns
  its nodes; a node is known by its index in the list \<open>nodes\<close>. An \<^verbatim>\<open>AudioParam\<close> keeps the
  value last assigned to \<^verbatim>\<open>.value\<close> (at first the default the platform gives it) and the
  automation calls made on it, in call order.
\<close>

datatype js_error = TypeError

datatype 'a outcome = Returned 'a | Thrown js_error

datatype waveform = Sine | Square | Sawtooth | Triangle

datatype context_state = Suspended | Running | Closed

datatype automation =
  SetValueAtTime real real
| LinearRampToValueAtTime real real
| ExponentialRampToValueAtTime real real
| SetTargetAtTime real real real

record audio_param =
  pvalue :: real
  scheduled :: "automation list"

text \<open>
  An oscillator has a waveform, a frequency and the arguments of \<^verbatim>\<open>start\<close> and \<^verbatim>\<open>stop\<close>
  once they were called; a biquad filter (always a low-pass here) has a frequency and a Q.
\<close>

datatype node =
  GainNode audio_param
| OscillatorNode waveform audio_param "real option" "real option"
| BiquadFilterNode audio_param audio_param

datatype port = Destination | Input nat | FilterFrequency nat

record audio_context =
  ctx_state :: context_state
  currentTime :: real
  nodes :: "node list"
  connections :: "(nat \<times> port) list"

text \<open>
  What \<^verbatim>\<open>window\<close> offers: the two constructors the code looks for, and the state in which a
  new context starts (\<open>Running\<close> inside a user gesture, \<open>Suspended\<close> under the autoplay
  policy otherwise).
\<close>

record platform =
  has_AudioContext :: bool
  has_webkitAudioContext :: bool
  starts :: context_state

definition new_context :: "platform \<Rightarrow> audio_context" where
  "new_context plat = \<lparr>ctx_state = starts plat, currentTime = 0, nodes = [], connections = []\<rparr>"

definition createGain :: "audio_context \<Rightarrow> nat \<times> audio_context" where
  "createGain c =
     (length (nodes c), c\<lparr>nodes := nodes c @ [GainNode \<lparr>pvalue = 1, scheduled = []\<rparr>]\<rparr>)"

definition createOscillator :: "audio_context \<Rightarrow> nat \<times> audio_context" where
  "createOscillator c =
     (length (nodes c),
      c\<lparr>nodes := nodes c @ [OscillatorNode Sine \<lparr>pvalue = 440, scheduled = []\<rparr> None None]\<rparr>)"

definition createBiquadFilter :: "audio_context \<Rightarrow> nat \<times> audio_context" where
  "createBiquadFilter c =
     (length (nodes c),
      c\<lparr>nodes := nodes c @ [BiquadFilterNode \<lparr>pvalue = 350, scheduled = []\<rparr>
                                              \<lparr>pvalue = 1, scheduled = []\<rparr>]\<rparr>)"

definition connect :: "nat \<Rightarrow> port \<Rightarrow> audio_context \<Rightarrow> audio_context" where
  "connect src dst c = c\<lparr>connections := connections c @ [(src, dst)]\<rparr>"

text \<open>A change of the node with index \<open>i\<close>.\<close>

definition modify :: "nat \<Rightarrow> (node \<Rightarrow> node) \<Rightarrow> audio_context \<Rightarrow> audio_context" where
  "modify i f c = (if i < length (nodes c) then c\<lparr>nodes := (nodes c)[i := f (nodes c ! i)]\<rparr> else c)"

fun on_gain :: "(audio_param \<Rightarrow> audio_param) \<Rightarrow> node \<Rightarrow> node" where
  "on_gain f (GainNode g) = GainNode (f g)"
| "on_gain f n = n"

fun on_frequency :: "(audio_param \<Rightarrow> audio_param) \<Rightarrow> node \<Rightarrow> node" where
  "on_frequency f (OscillatorNode w fr s e) = OscillatorNode w (f fr) s e"
| "on_frequency f (BiquadFilterNode fr q) = BiquadFilterNode (f fr) q"
| "on_frequency f n = n"

fun on_Q :: "(audio_param \<Rightarrow> audio_param) \<Rightarrow> node \<Rightarrow> node" where
  "on_Q f (BiquadFilterNode fr q) = BiquadFilterNode fr (f q)"
| "on_Q f n = n"

fun set_type :: "waveform \<Rightarrow> node \<Rightarrow> node" where
  "set_type w (OscillatorNode w0 fr s e) = OscillatorNode w fr s e"
| "set_type w n = n"

fun start :: "real \<Rightarrow> node \<Rightarrow> node" where
  "start t (OscillatorNode w fr s e) = OscillatorNode w fr (Some t) e"
| "start t n = n"

fun stop :: "real \<Rightarrow> node \<Rightarrow> node" where
  "stop t (OscillatorNode w fr s e) = OscillatorNode w fr s (Some t)"
| "stop t n = n"

text \<open>Assignment to \<^verbatim>\<open>.value\<close>, and a call of an automation method.\<close>

definition assign :: "real \<Rightarrow> audio_param \<Rightarrow> audio_param" where
  "assign v p = p\<lparr>pvalue := v\<rparr>"

definition schedule :: "automation \<Rightarrow> audio_param \<Rightarrow> audio_param" where
  "schedule a p = p\<lparr>scheduled := scheduled p @ [a]\<rparr>"

text \<open>
  \<^verbatim>\<open>resume()\<close> asks the platform to start a suspended context; the platform is taken to
  grant it.
\<close>

definition resume :: "audio_context \<Rightarrow> audio_context" where
  "resume c = c\<lparr>ctx_state := Running\<rparr>"

section \<open>AudioEngine\<close>

record audio_engine =
  ctx :: "audio_context option"
  masterGain :: "nat option"
  musicGain :: "nat option"
  sfxGain :: "nat option"
  droneOsc :: "nat option"
  droneGain :: "nat option"
  isMuted :: bool
  initialized :: bool

text \<open>The constructor.\<close>

definition new_engine :: audio_engine where
  "new_engine = \<lparr>ctx = None, masterGain = None, musicGain = None, sfxGain = None,
                  droneOsc = None, droneGain = None, isMuted = False, initialized = False\<rparr>"

text \<open>The constants of \<^verbatim>\<open>AUDIO_CONFIG\<close>.\<close>

definition DRONE_FREQUENCY :: real where "DRONE_FREQUENCY = 50"
definition FILTER_FREQUENCY :: real where "FILTER_FREQUENCY = 120"
definition FILTER_Q :: real where "FILTER_Q = 5"
definition LFO_FREQUENCY :: real where "LFO_FREQUENCY = 0.2"
definition LFO_GAIN :: real where "LFO_GAIN = 20"
definition DRONE_GAIN :: real where "DRONE_GAIN = 0.05"
definition CLICK_START_FREQ :: real where "CLICK_START_FREQ = 1200"
definition CLICK_END_FREQ :: real where "CLICK_END_FREQ = 100"

text \<open>
  Every method returns its outcome and the engine as the call left it: an exception leaves
  the assignments made before it in place. A method call on \<^verbatim>\<open>null\<close>, \<^verbatim>\<open>connect(null)\<close>
  and \<^verbatim>\<open>new undefined()\<close> throw a \<^verbatim>\<open>TypeError\<close>.
\<close>

definition startAmbience :: "audio_engine \<Rightarrow> unit outcome \<times> audio_engine" where
  "startAmbience e =
     (case ctx e of
        None \<Rightarrow> (Returned (), e)
      | Some c0 \<Rightarrow>
          (let (osc, c1) = createOscillator c0;
               c2 = modify osc (set_type Sawtooth) c1;
               c3 = modify osc (on_frequency (assign DRONE_FREQUENCY)) c2;
               (filter, c4) = createBiquadFilter c3;
               c5 = modify filter (on_frequency (assign FILTER_FREQUENCY)) c4;
               c6 = modify filter (on_Q (assign FILTER_Q)) c5;
               (lfo, c7) = createOscillator c6;
               c8 = modify lfo (set_type Sine) c7;
               c9 = modify lfo (on_frequency (assign LFO_FREQUENCY)) c8;
               (lfoGain, c10) = createGain c9;
               c11 = modify lfoGain (on_gain (assign LFO_GAIN)) c10;
               c12 = connect lfo (Input lfoGain) c11;
               c13 = connect lfoGain (FilterFrequency filter) c12;
               (dg, c14) = createGain c13;
               c15 = modify dg (on_gain (assign DRONE_GAIN)) c14;
               c16 = connect osc (Input filter) c15;
               c17 = connect filter (Input dg) c16;
               e1 = e\<lparr>droneOsc := Some osc, droneGain := Some dg\<rparr>
           in case musicGain e of
                None \<Rightarrow> (Thrown TypeError, e1\<lparr>ctx := Some c17\<rparr>)
              | Some mg \<Rightarrow>
                  (let c18 = connect dg (Input mg) c17;
                       c19 = modify osc (start 0) c18;
                       c20 = modify lfo (start 0) c19
                   in (Returned (), e1\<lparr>ctx := Some c20\<rparr>))))"

definition init :: "platform \<Rightarrow> audio_engine \<Rightarrow> unit outcome \<times> audio_engine" where
  "init plat e =
     (if initialized e then (Returned (), e)
      else if \<not> (has_AudioContext plat \<or> has_webkitAudioContext plat) then (Thrown TypeError, e)
      else
        (let c0 = new_context plat;
             (mg, c1) = createGain c0;
             c2 = connect mg Destination c1;
             (mu, c3) = createGain c2;
             c4 = connect mu (Input mg) c3;
             (sf, c5) = createGain c4;
             c6 = connect sf (Input mg) c5
         in startAmbience
              (e\<lparr>ctx := Some c6, masterGain := Some mg, musicGain := Some mu,
                 sfxGain := Some sf, initialized := True\<rparr>)))"

definition setVolumes :: "real \<Rightarrow> real \<Rightarrow> audio_engine \<Rightarrow> unit outcome \<times> audio_engine" where
  "setVolumes musicVol sfxVol e =
     (if \<not> initialized e then (Returned (), e)
      else case ctx e of
        None \<Rightarrow> (Thrown TypeError, e)
      | Some c \<Rightarrow>
          (let now = currentTime c
           in case musicGain e of
                None \<Rightarrow> (Thrown TypeError, e)
              | Some mu \<Rightarrow>
                  (let c1 = modify mu (on_gain (schedule (SetTargetAtTime (musicVol / 100) now 0.1))) c
                   in case sfxGain e of
                        None \<Rightarrow> (Thrown TypeError, e\<lparr>ctx := Some c1\<rparr>)
                      | Some sf \<Rightarrow>
                          (Returned (),
                           e\<lparr>ctx := Some (modify sf
                                (on_gain (schedule (SetTargetAtTime (sfxVol / 100) now 0.1))) c1)\<rparr>))))"

definition toggleMute :: "audio_engine \<Rightarrow> bool outcome \<times> audio_engine" where
  "toggleMute e =
     (if \<not> initialized e then (Returned False, e)
      else
        (let e1 = e\<lparr>isMuted := \<not> isMuted e\<rparr>
         in case ctx e1 of
              None \<Rightarrow> (Thrown TypeError, e1)
            | Some c \<Rightarrow>
                (let now = currentTime c
                 in case masterGain e1 of
                      None \<Rightarrow> (Thrown TypeError, e1)
                    | Some mg \<Rightarrow>
                        (Returned (isMuted e1),
                         e1\<lparr>ctx := Some (modify mg
                              (on_gain (schedule
                                 (SetTargetAtTime (if isMuted e1 then 0 else 1) now 0.1))) c)\<rparr>))))"

definition playClickSound :: "audio_engine \<Rightarrow> unit outcome \<times> audio_engine" where
  "playClickSound e =
     (if \<not> initialized e \<or> isMuted e then (Returned (), e)
      else case ctx e of
        None \<Rightarrow> (Thrown TypeError, e)
      | Some c \<Rightarrow>
          (let t = currentTime c;
               (osc, c1) = createOscillator c;
               (gain, c2) = createGain c1;
               c3 = modify osc (set_type Sawtooth) c2;
               c4 = modify osc (on_frequency (schedule (SetValueAtTime CLICK_START_FREQ t))) c3;
               c5 = modify osc (on_frequency
                      (schedule (ExponentialRampToValueAtTime CLICK_END_FREQ (t + 0.1)))) c4;
               c6 = modify gain (on_gain (schedule (SetValueAtTime 0.5 t))) c5;
               c7 = modify gain (on_gain (schedule (ExponentialRampToValueAtTime 0.01 (t + 0.1)))) c6;
               c8 = connect osc (Input gain) c7
           in case sfxGain e of
                None \<Rightarrow> (Thrown TypeError, e\<lparr>ctx := Some c8\<rparr>)
              | Some sf \<Rightarrow>
                  (let c9 = connect gain (Input sf) c8;
                       c10 = modify osc (start t) c9;
                       c11 = modify osc (stop (t + 0.15)) c10
                   in (Returned (), e\<lparr>ctx := Some c11\<rparr>))))"

text \<open>\<^verbatim>\<open>playHoverSound()\<close>; \<open>r\<close> is the result of its call of \<^verbatim>\<open>Math.random()\<close>.\<close>

definition playHoverSound :: "real \<Rightarrow> audio_engine \<Rightarrow> unit outcome \<times> audio_engine" where
  "playHoverSound r e =
     (if \<not> initialized e \<or> isMuted e then (Returned (), e)
      else case ctx e of
        None \<Rightarrow> (Thrown TypeError, e)
      | Some c \<Rightarrow>
          (let t = currentTime c;
               (osc, c1) = createOscillator c;
               (gain, c2) = createGain c1;
               c3 = modify osc (set_type Square) c2;
               c4 = modify osc (on_frequency (schedule (SetValueAtTime (800 + r * 200) t))) c3;
               c5 = modify gain (on_gain (schedule (SetValueAtTime 0.05 t))) c4;
               c6 = modify gain (on_gain (schedule (ExponentialRampToValueAtTime 0.001 (t + 0.05)))) c5;
               c7 = connect osc (Input gain) c6
           in case sfxGain e of
                None \<Rightarrow> (Thrown TypeError, e\<lparr>ctx := Some c7\<rparr>)
              | Some sf \<Rightarrow>
                  (let c8 = connect gain (Input sf) c7;
                       c9 = modify osc (start t) c8;
                       c10 = modify osc (stop (t + 0.05)) c9
                   in (Returned (), e\<lparr>ctx := Some c10\<rparr>))))"

text \<open>
  What can happen to the engine: a call of one of its methods, or the audio clock moving on
  by some milliseconds. An exception goes to the caller; the engine stays as the call left
  it.
\<close>

datatype engine_op =
  Init
| StartAmbience
| SetVolumes real real
| ToggleMute
| PlayClickSound
| PlayHoverSound real
| Elapse nat

fun apply_op :: "platform \<Rightarrow> engine_op \<Rightarrow> audio_engine \<Rightarrow> audio_engine" where
  "apply_op plat Init e = snd (init plat e)"
| "apply_op plat StartAmbience e = snd (startAmbience e)"
| "apply_op plat (SetVolumes musicVol sfxVol) e = snd (setVolumes musicVol sfxVol e)"
| "apply_op plat ToggleMute e = snd (toggleMute e)"
| "apply_op plat PlayClickSound e = snd (playClickSound e)"
| "apply_op plat (PlayHoverSound r) e = snd (playHoverSound r e)"
| "apply_op plat (Elapse ms) e =
     e\<lparr>ctx := map_option (\<lambda>c. c\<lparr>currentTime := currentTime c + real ms / 1000\<rparr>) (ctx e)\<rparr>"

fun apply_ops :: "platform \<Rightarrow> engine_op list \<Rightarrow> audio_engine \<Rightarrow> audio_engine" where
  "apply_ops plat [] e = e"
| "apply_ops plat (a # as) e = apply_ops plat as (apply_op plat a e)"

text \<open>
  The levels a parameter is told to take: its assigned value and the target value of every
  automation call.
\<close>

fun level :: "automation \<Rightarrow> real" where
  "level (SetValueAtTime v t) = v"
| "level (LinearRampToValueAtTime v t) = v"
| "level (ExponentialRampToValueAtTime v t) = v"
| "level (SetTargetAtTime v t tc) = v"

definition levels :: "audio_param \<Rightarrow> real list" where
  "levels p = pvalue p # map level (scheduled p)"

text \<open>
  The curve of \<^verbatim>\<open>setTargetAtTime(target, t0, tc)\<close> in the Web Audio interface: \<open>dt\<close> seconds
  after \<open>t0\<close> a parameter that had the value \<open>v0\<close> at \<open>t0\<close> has this value.
\<close>

definition target_curve :: "real \<Rightarrow> real \<Rightarrow> real \<Rightarrow> real \<Rightarrow> real" where
  "target_curve v0 target tc dt = target + (v0 - target) * exp (- (dt / tc))"

text \<open>The gain parameter of the node an engine field points to.\<close>

definition gain_of :: "audio_engine \<Rightarrow> nat option \<Rightarrow> audio_param option" where
  "gain_of e field =
     (case (ctx e, field) of
        (Some c, Some i) \<Rightarrow>
          (if i < length (nodes c) then (case nodes c ! i of GainNode g \<Rightarrow> Some g | _ \<Rightarrow> None)
           else None)
      | _ \<Rightarrow> None)"

definition clamped :: "audio_param option \<Rightarrow> bool" where
  "clamped po \<longleftrightarrow> (case po of None \<Rightarrow> True | Some p \<Rightarrow> list_all (\<lambda>v. 0 \<le> v \<and> v \<le> 1) (levels p))"

definition gains_present :: "audio_engine \<Rightarrow> bool" where
  "gains_present e \<longleftrightarrow>
     gain_of e (masterGain e) \<noteq> None \<and> gain_of e (musicGain e) \<noteq> None \<and>
     gain_of e (sfxGain e) \<noteq> None \<and> gain_of e (droneGain e) \<noteq> None"

definition gains_clamped :: "audio_engine \<Rightarrow> bool" where
  "gains_clamped e \<longleftrightarrow>
     clamped (gain_of e (masterGain e)) \<and> clamped (gain_of e (musicGain e)) \<and>
     clamped (gain_of e (sfxGain e)) \<and> clamped (gain_of e (droneGain e))"

fun volumes_in_range :: "engine_op \<Rightarrow> bool" where
  "volumes_in_range (SetVolumes musicVol sfxVol) \<longleftrightarrow>
     0 \<le> musicVol \<and> musicVol \<le> 100 \<and> 0 \<le> sfxVol \<and> sfxVol \<le> 100"
| "volumes_in_range a \<longleftrightarrow> True"

section \<open>useSoundEngine\<close>

text \<open>
  The hook keeps \<^verbatim>\<open>audioContextRef.current\<close>. There are two versions of \<^verbatim>\<open>initAudio\<close>: the
  one of \<^verbatim>\<open>index.js\<close> constructs the context without looking whether a constructor was
  found, the later one tests it first.
\<close>

definition initAudio_index :: "platform \<Rightarrow> audio_context option \<Rightarrow> unit outcome \<times> audio_context option" where
  "initAudio_index plat current =
     (case (case current of
              None \<Rightarrow>
                (if has_AudioContext plat \<or> has_webkitAudioContext plat
                 then Inr (new_context plat) else Inl TypeError)
            | Some c \<Rightarrow> Inr c) of
        Inl err \<Rightarrow> (Thrown err, current)
      | Inr c \<Rightarrow> (Returned (), Some (if ctx_state c = Suspended then resume c else c)))"

definition initAudio :: "platform \<Rightarrow> audio_context option \<Rightarrow> unit outcome \<times> audio_context option" where
  "initAudio plat current =
     (let current1 =
            (case current of
               None \<Rightarrow>
                 (if has_AudioContext plat \<or> has_webkitAudioContext plat
                  then Some (new_context plat) else None)
             | Some c \<Rightarrow> Some c)
      in case current1 of
           None \<Rightarrow> (Returned (), None)
         | Some c \<Rightarrow> (Returned (), Some (if ctx_state c = Suspended then resume c else c)))"

text \<open>\<^verbatim>\<open>playSound(type)\<close>, the same in both versions; \<open>volume\<close> is the argument of the hook.\<close>

definition playSound :: "real \<Rightarrow> string \<Rightarrow> audio_context option \<Rightarrow> unit outcome \<times> audio_context option" where
  "playSound volume type current =
     (case current of
        None \<Rightarrow> (Returned (), None)
      | Some c \<Rightarrow>
          (let (osc, c1) = createOscillator c;
               (gainNode, c2) = createGain c1;
               c3 = connect osc (Input gainNode) c2;
               c4 = connect gainNode Destination c3;
               now = currentTime c4
           in if type = ''click'' then
                (let c5 = modify osc (set_type Square) c4;
                     c6 = modify osc (on_frequency (schedule (SetValueAtTime 800 now))) c5;
                     c7 = modify osc (on_frequency
                            (schedule (ExponentialRampToValueAtTime 1200 (now + 0.05)))) c6;
                     c8 = modify gainNode (on_gain (schedule (SetValueAtTime (volume * 0.5) now))) c7;
                     c9 = modify gainNode (on_gain
                            (schedule (ExponentialRampToValueAtTime 0.01 (now + 0.05)))) c8;
                     c10 = modify osc (start now) c9;
                     c11 = modify osc (stop (now + 0.05)) c10
                 in (Returned (), Some c11))
              else if type = ''hover'' then
                (let c5 = modify osc (set_type Sine) c4;
                     c6 = modify osc (on_frequency (schedule (SetValueAtTime 200 now))) c5;
                     c7 = modify osc (on_frequency
                            (schedule (LinearRampToValueAtTime 220 (now + 0.05)))) c6;
                     c8 = modify gainNode (on_gain (schedule (SetValueAtTime (volume * 0.1) now))) c7;
                     c9 = modify gainNode (on_gain
                            (schedule (LinearRampToValueAtTime 0 (now + 0.1)))) c8;
                     c10 = modify osc (start now) c9;
                     c11 = modify osc (stop (now + 0.1)) c10
                 in (Returned (), Some c11))
              else if type = ''scan'' then
                (let c5 = modify osc (set_type Sawtooth) c4;
                     c6 = modify osc (on_frequency (schedule (SetValueAtTime 100 now))) c5;
                     c7 = modify osc (on_frequency
                            (schedule (LinearRampToValueAtTime 800 (now + 0.2)))) c6;
                     c8 = modify gainNode (on_gain (schedule (SetValueAtTime (volume * 0.2) now))) c7;
                     c9 = modify gainNode (on_gain
                            (schedule (ExponentialRampToValueAtTime 0.01 (now + 0.2)))) c8;
                     c10 = modify osc (start now) c9;
                     c11 = modify osc (stop (now + 0.2)) c10
                 in (Returned (), Some c11))
              else (Returned (), Some c4)))"

text \<open>The gain node \<open>i\<close> of a context exists and all its levels lie in \<open>[0, 1]\<close>.\<close>

definition ok :: "audio_context \<Rightarrow> nat \<Rightarrow> bool" where
  "ok c i \<longleftrightarrow> i < length (nodes c) \<and>
     (case nodes c ! i of GainNode g \<Rightarrow> list_all (\<lambda>v. 0 \<le> v \<and> v \<le> 1) (levels g) | _ \<Rightarrow> False)"

definition good :: "audio_engine \<Rightarrow> bool" where
  "good e \<longleftrightarrow>
     (case ctx e of
        None \<Rightarrow> \<not> initialized e \<and> masterGain e = None \<and> musicGain e = None \<and>
                sfxGain e = None \<and> droneGain e = None
      | Some c \<Rightarrow>
          (\<exists>mg mu sf d. masterGain e = Some mg \<and> musicGain e = Some mu \<and>
              sfxGain e = Some sf \<and> droneGain e = Some d \<and>
              ok c mg \<and> ok c mu \<and> ok c sf \<and> ok c d))"

section \<open>The particle step\<close>

lemma update_total: "\<exists>p'. update cv m p = Some p'"
  by (auto simp: update_def js_div_def Let_def)

lemma update_unforced:
  assumes "\<not> active m \<or> 250 \<le> pointer_dist m p \<or> pointer_dist m p = 0"
  shows "\<exists>p'. update cv m p = Some p' \<and> vx p' = vx p * 0.96 \<and> vy p' = vy p * 0.96"
  using assms by (auto simp: update_def pointer_dist_def Let_def)

lemma update_forced:
  assumes "active m" and "0 < pointer_dist m p" and "pointer_dist m p < 250"
  shows "\<exists>p'. update cv m p = Some p' \<and>
     vx p' = (vx p + (x p + vx p - mouse_x m) / pointer_dist m p * push_strength (pointer_dist m p)) * 0.96 \<and>
     vy p' = (vy p + (y p + vy p - mouse_y m) / pointer_dist m p * push_strength (pointer_dist m p)) * 0.96"
  using assms by (auto simp: update_def pointer_dist_def push_strength_def js_div_def Let_def)

lemma speed_scale: "vx q = vx p * c \<Longrightarrow> vy q = vy p * c \<Longrightarrow> 0 \<le> c \<Longrightarrow> speed q = c * speed p"
proof -
  assume a: "vx q = vx p * c" "vy q = vy p * c" "0 \<le> c"
  have "vx q * vx q + vy q * vy q = (c * c) * (vx p * vx p + vy p * vy p)"
    using a by (simp add: algebra_simps)
  then have "speed q = sqrt (c * c) * speed p"
    by (simp add: speed_def real_sqrt_mult)
  then show ?thesis using a by simp
qed





lemma pointer_dist_axis:
  "y p + vy p = mouse_y m \<Longrightarrow> pointer_dist m p = \<bar>x p + vx p - mouse_x m\<bar>"
  by (simp add: pointer_dist_def)

lemma speed_axis: "vy p = 0 \<Longrightarrow> speed p = \<bar>vx p\<bar>"
  by (simp add: speed_def)

lemma sqrt_10000: "sqrt 10000 = 100"
  by (rule real_sqrt_unique) simp_all

lemma push_strength_pos: "d < 250 \<Longrightarrow> 0 < push_strength d"
  by (simp add: push_strength_def)

lemma push_strength_antimono: "d1 < d2 \<Longrightarrow> push_strength d2 < push_strength d1"
  by (simp add: push_strength_def)

lemma unit_vector_length:
  fixes a b d s :: real
  assumes "d = sqrt (a * a + b * b)" and "0 < d" and "0 \<le> s"
  shows "sqrt ((a / d * s) * (a / d * s) + (b / d * s) * (b / d * s)) = s"
proof -
  have dd: "d * d = a * a + b * b"
    using assms(1,2) by (simp add: real_sqrt_mult_self power2_eq_square[symmetric])
  have "(a / d * s) * (a / d * s) + (b / d * s) * (b / d * s) = (a * a + b * b) / (d * d) * (s * s)"
    by (simp add: add_divide_distrib algebra_simps)
  also have "\<dots> = s * s" unfolding dd[symmetric] using assms(2) by simp
  finally show ?thesis using assms(3) by simp
qed

lemma speed_push:
  assumes "vx q = a / d * s" and "vy q = b / d * s"
    and "d = sqrt (a * a + b * b)" and "0 < d" and "0 \<le> s"
  shows "speed q = s"
  unfolding speed_def assms(1,2) using assms(3-5) by (rule unit_vector_length)

text \<open>
  Claim C1, as the code has it. For a particle whose distance \<open>d\<close> to the active pointer,
  measured after its position was advanced, satisfies \<open>0 < d < 250\<close>, one call of
  \<^verbatim>\<open>update()\<close> adds to the velocity the unit vector from the pointer to the particle,
  scaled by \<open>0.4 * (250 - d) / 250\<close>, and then multiplies the velocity by 0.96. The added
  vector points away from the pointer; its length is positive and is the larger the closer
  the pointer is. A particle that was at rest gains speed.
\<close>

theorem pointer_force_repels:
  assumes "active m" and "0 < pointer_dist m p" and "pointer_dist m p < 250"
  shows "\<exists>p'. update cv m p = Some p' \<and>
     vx p' = (vx p + (x p + vx p - mouse_x m) / pointer_dist m p * push_strength (pointer_dist m p)) * 0.96 \<and>
     vy p' = (vy p + (y p + vy p - mouse_y m) / pointer_dist m p * push_strength (pointer_dist m p)) * 0.96 \<and>
     0 < push_strength (pointer_dist m p) \<and>
     (\<forall>d. pointer_dist m p < d \<longrightarrow> push_strength d < push_strength (pointer_dist m p)) \<and>
     (vx p = 0 \<and> vy p = 0 \<longrightarrow> speed p' = push_strength (pointer_dist m p) * 0.96 \<and> speed p < speed p')"
proof -
  let ?d = "pointer_dist m p"
  let ?s = "push_strength ?d"
  from update_forced[OF assms, of cv] obtain p' where
    p': "update cv m p = Some p'"
        "vx p' = (vx p + (x p + vx p - mouse_x m) / ?d * ?s) * 0.96"
        "vy p' = (vy p + (y p + vy p - mouse_y m) / ?d * ?s) * 0.96"
    by blast
  have pos: "0 < ?s" using assms(3) by (rule push_strength_pos)
  have mono: "\<forall>d. ?d < d \<longrightarrow> push_strength d < ?s"
    using push_strength_antimono by blast
  have rest: "speed p' = ?s * 0.96 \<and> speed p < speed p'" if z: "vx p = 0 \<and> vy p = 0"
  proof -
    let ?q = "p\<lparr>vx := (x p + vx p - mouse_x m) / ?d * ?s, vy := (y p + vy p - mouse_y m) / ?d * ?s\<rparr>"
    have "speed ?q = ?s"
    proof (rule speed_push)
      show "vx ?q = (x p + vx p - mouse_x m) / ?d * ?s" by simp
      show "vy ?q = (y p + vy p - mouse_y m) / ?d * ?s" by simp
      show "?d = sqrt ((x p + vx p - mouse_x m) * (x p + vx p - mouse_x m)
                     + (y p + vy p - mouse_y m) * (y p + vy p - mouse_y m))"
        by (simp add: pointer_dist_def)
      show "0 < ?d" by (rule assms(2))
      show "0 \<le> ?s" using pos by simp
    qed
    moreover have "speed p' = 0.96 * speed ?q"
      using p' z by (intro speed_scale) simp_all
    moreover have "speed p = 0" using z by (simp add: speed_def)
    ultimately show ?thesis using pos by simp
  qed
  show ?thesis using p' pos mono rest by blast
qed

text \<open>C1, an instance: a particle at rest 100 pixels left of the pointer is pushed to the left.\<close>

theorem pointer_force_repels_witness:
  "active \<lparr>mouse_x = 110, mouse_y = 0, active = True\<rparr> \<and>
   pointer_dist \<lparr>mouse_x = 110, mouse_y = 0, active = True\<rparr>
     \<lparr>x = 10, y = 0, vx = 0, vy = 0, size' = 1, alpha = 1\<rparr> = 100 \<and>
   (\<exists>p'. update \<lparr>width = 1000, height = 1000\<rparr> \<lparr>mouse_x = 110, mouse_y = 0, active = True\<rparr>
           \<lparr>x = 10, y = 0, vx = 0, vy = 0, size' = 1, alpha = 1\<rparr> = Some p' \<and>
         vx p' = - 0.2304 \<and> vy p' = 0 \<and> speed p' = 0.2304)"
proof -
  let ?m = "\<lparr>mouse_x = 110, mouse_y = 0, active = True\<rparr>"
  let ?p = "\<lparr>x = 10, y = 0, vx = 0, vy = 0, size' = 1, alpha = 1\<rparr>"
  have d: "pointer_dist ?m ?p = 100" by (simp add: pointer_dist_axis)
  have s: "push_strength 100 = 0.24" by (simp add: push_strength_def)
  show ?thesis
    using pointer_force_repels[of ?m ?p "\<lparr>width = 1000, height = 1000\<rparr>"]
    by (auto simp: d s)
qed

text \<open>
  C1 as stated fails: a particle that moves towards a pointer 100 pixels ahead of it is
  slowed down. The velocity change points away from the pointer and the speed drops from
  10 to 9.3696.
\<close>

theorem attraction_counterexample:
  "active \<lparr>mouse_x = 110, mouse_y = 0, active = True\<rparr> \<and>
   0 < pointer_dist \<lparr>mouse_x = 110, mouse_y = 0, active = True\<rparr>
         \<lparr>x = 0, y = 0, vx = 10, vy = 0, size' = 1, alpha = 1\<rparr> \<and>
   pointer_dist \<lparr>mouse_x = 110, mouse_y = 0, active = True\<rparr>
         \<lparr>x = 0, y = 0, vx = 10, vy = 0, size' = 1, alpha = 1\<rparr> < 250 \<and>
   update \<lparr>width = 1000, height = 1000\<rparr> \<lparr>mouse_x = 110, mouse_y = 0, active = True\<rparr>
       \<lparr>x = 0, y = 0, vx = 10, vy = 0, size' = 1, alpha = 1\<rparr>
     = Some \<lparr>x = 10, y = 0, vx = 9.3696, vy = 0, size' = 1, alpha = 1\<rparr> \<and>
   \<not> speed \<lparr>x = 0, y = 0, vx = 10, vy = 0, size' = 1, alpha = 1\<rparr>
       \<le> speed \<lparr>x = 10, y = 0, vx = 9.3696, vy = 0, size' = 1, alpha = 1\<rparr> \<and>
   (9.3696 / 0.96 - 10) * (110 - 10) < (0::real)"
  by (simp add: pointer_dist_axis speed_axis update_def js_div_def Let_def sqrt_10000)




lemma pointer_dist_nonneg: "0 \<le> pointer_dist m p"
  by (simp add: pointer_dist_def)






text \<open>
  Claim C9. \<^verbatim>\<open>update()\<close> never divides by zero: it always returns a particle. A velocity
  that is not just the damped old velocity occurs only with an active pointer at a distance
  \<open>0 < dist < 250\<close>; when the pointer is exactly at the advanced position the velocity is
  only damped. In this development every number is a real and so finite unless a division
  by zero occurred.
\<close>

theorem pointer_force_guard:
  "\<exists>p'. update cv m p = Some p' \<and>
     (vx p' \<noteq> vx p * 0.96 \<or> vy p' \<noteq> vy p * 0.96 \<longrightarrow>
        active m \<and> 0 < pointer_dist m p \<and> pointer_dist m p < 250) \<and>
     (pointer_dist m p = 0 \<longrightarrow> vx p' = vx p * 0.96 \<and> vy p' = vy p * 0.96)"
proof -
  consider (f) "active m \<and> 0 < pointer_dist m p \<and> pointer_dist m p < 250"
    | (u) "\<not> active m \<or> 250 \<le> pointer_dist m p \<or> pointer_dist m p = 0"
    using pointer_dist_nonneg[of m p] by fastforce
  then show ?thesis
  proof cases
    case f
    obtain p' where "update cv m p = Some p'" using update_total by blast
    then show ?thesis using f by auto
  next
    case u
    from update_unforced[OF u, of cv] show ?thesis by blast
  qed
qed

text \<open>
  C9, two instances: a pointer exactly at the advanced position, and a pointer 100 pixels
  away, where the velocity does change.
\<close>

theorem pointer_force_guard_witness:
  "pointer_dist \<lparr>mouse_x = 5, mouse_y = 5, active = True\<rparr>
      \<lparr>x = 4, y = 5, vx = 1, vy = 0, size' = 1, alpha = 1\<rparr> = 0 \<and>
   update \<lparr>width = 100, height = 100\<rparr> \<lparr>mouse_x = 5, mouse_y = 5, active = True\<rparr>
      \<lparr>x = 4, y = 5, vx = 1, vy = 0, size' = 1, alpha = 1\<rparr>
     = Some \<lparr>x = 5, y = 5, vx = 0.96, vy = 0, size' = 1, alpha = 1\<rparr> \<and>
   update \<lparr>width = 1000, height = 1000\<rparr> \<lparr>mouse_x = 110, mouse_y = 0, active = True\<rparr>
       \<lparr>x = 0, y = 0, vx = 10, vy = 0, size' = 1, alpha = 1\<rparr>
     = Some \<lparr>x = 10, y = 0, vx = 9.3696, vy = 0, size' = 1, alpha = 1\<rparr> \<and>
   (9.3696::real) \<noteq> 10 * 0.96 \<and>
   active \<lparr>mouse_x = 110, mouse_y = 0, active = True\<rparr> \<and>
   0 < pointer_dist \<lparr>mouse_x = 110, mouse_y = 0, active = True\<rparr>
         \<lparr>x = 0, y = 0, vx = 10, vy = 0, size' = 1, alpha = 1\<rparr> \<and>
   pointer_dist \<lparr>mouse_x = 110, mouse_y = 0, active = True\<rparr>
         \<lparr>x = 0, y = 0, vx = 10, vy = 0, size' = 1, alpha = 1\<rparr> < 250"
proof -
  let ?m = "\<lparr>mouse_x = 5, mouse_y = 5, active = True\<rparr>"
  let ?p = "\<lparr>x = 4, y = 5, vx = 1, vy = 0, size' = 1, alpha = 1\<rparr>"
  let ?m2 = "\<lparr>mouse_x = 110, mouse_y = 0, active = True\<rparr>"
  let ?p2 = "\<lparr>x = 0, y = 0, vx = 10, vy = 0, size' = 1, alpha = 1\<rparr>"
  have d: "pointer_dist ?m ?p = 0" by (simp add: pointer_dist_def)
  from pointer_force_guard[of "\<lparr>width = 100, height = 100\<rparr>" ?m ?p]
  obtain p' where p': "update \<lparr>width = 100, height = 100\<rparr> ?m ?p = Some p'"
    "vx p' = vx ?p * 0.96 \<and> vy p' = vy ?p * 0.96" using d by auto
  have a: "update \<lparr>width = 100, height = 100\<rparr> ?m ?p
     = Some \<lparr>x = 5, y = 5, vx = 0.96, vy = 0, size' = 1, alpha = 1\<rparr>"
    using p' by (simp add: update_def Let_def)
  have u2: "update \<lparr>width = 1000, height = 1000\<rparr> ?m2 ?p2
     = Some \<lparr>x = 10, y = 0, vx = 9.3696, vy = 0, size' = 1, alpha = 1\<rparr>"
    by (simp add: update_def js_div_def Let_def sqrt_10000)
  from pointer_force_guard[of "\<lparr>width = 1000, height = 1000\<rparr>" ?m2 ?p2]
  have b: "active ?m2 \<and> 0 < pointer_dist ?m2 ?p2 \<and> pointer_dist ?m2 ?p2 < 250"
    unfolding u2 by simp
  show ?thesis using d a u2 b by simp
qed

section \<open>Bursts\<close>



















section \<open>The sound code\<close>

lemmas config_defs = DRONE_FREQUENCY_def FILTER_FREQUENCY_def FILTER_Q_def LFO_FREQUENCY_def
  LFO_GAIN_def DRONE_GAIN_def CLICK_START_FREQ_def CLICK_END_FREQ_def

lemma createGain_rec:
  "createGain \<lparr>ctx_state = s, currentTime = t, nodes = N, connections = C\<rparr> =
     (length N, \<lparr>ctx_state = s, currentTime = t,
                 nodes = N @ [GainNode \<lparr>pvalue = 1, scheduled = []\<rparr>], connections = C\<rparr>)"
  by (simp add: createGain_def)

lemma createOscillator_rec:
  "createOscillator \<lparr>ctx_state = s, currentTime = t, nodes = N, connections = C\<rparr> =
     (length N, \<lparr>ctx_state = s, currentTime = t,
                 nodes = N @ [OscillatorNode Sine \<lparr>pvalue = 440, scheduled = []\<rparr> None None],
                 connections = C\<rparr>)"
  by (simp add: createOscillator_def)

lemma createBiquadFilter_rec:
  "createBiquadFilter \<lparr>ctx_state = s, currentTime = t, nodes = N, connections = C\<rparr> =
     (length N, \<lparr>ctx_state = s, currentTime = t,
                 nodes = N @ [BiquadFilterNode \<lparr>pvalue = 350, scheduled = []\<rparr>
                                               \<lparr>pvalue = 1, scheduled = []\<rparr>],
                 connections = C\<rparr>)"
  by (simp add: createBiquadFilter_def)

lemma connect_rec:
  "connect a b \<lparr>ctx_state = s, currentTime = t, nodes = N, connections = C\<rparr> =
     \<lparr>ctx_state = s, currentTime = t, nodes = N, connections = C @ [(a, b)]\<rparr>"
  by (simp add: connect_def)

lemma modify_rec:
  "length N \<le> i \<Longrightarrow>
   modify i f \<lparr>ctx_state = s, currentTime = t, nodes = N @ M, connections = C\<rparr> =
     \<lparr>ctx_state = s, currentTime = t,
      nodes = N @ (if i - length N < length M
                   then M[i - length N := f (M ! (i - length N))] else M),
      connections = C\<rparr>"
proof -
  assume le: "length N \<le> i"
  then have not_less: "\<not> i < length N" by simp
  have iff: "i - length N < length M \<longleftrightarrow> i < length N + length M" using le by arith
  show ?thesis
    unfolding modify_def iff
    by (simp add: list_update_append nth_append not_less)
qed

lemmas platform_rec = createGain_rec createOscillator_rec createBiquadFilter_rec connect_rec
  modify_rec assign_def schedule_def

lemma startAmbience_rec:
  assumes "ctx e = Some \<lparr>ctx_state = s, currentTime = t, nodes = N, connections = C\<rparr>"
    and "musicGain e = Some mg"
  shows "startAmbience e =
    (Returned (),
     e\<lparr>ctx := Some \<lparr>ctx_state = s, currentTime = t,
          nodes = N @
            [OscillatorNode Sawtooth \<lparr>pvalue = 50, scheduled = []\<rparr> (Some 0) None,
             BiquadFilterNode \<lparr>pvalue = 120, scheduled = []\<rparr> \<lparr>pvalue = 5, scheduled = []\<rparr>,
             OscillatorNode Sine \<lparr>pvalue = 0.2, scheduled = []\<rparr> (Some 0) None,
             GainNode \<lparr>pvalue = 20, scheduled = []\<rparr>,
             GainNode \<lparr>pvalue = 0.05, scheduled = []\<rparr>],
          connections = C @
            [(length N + 2, Input (length N + 3)),
             (length N + 3, FilterFrequency (length N + 1)),
             (length N, Input (length N + 1)),
             (length N + 1, Input (length N + 4)),
             (length N + 4, Input mg)]\<rparr>,
        droneOsc := Some (length N), droneGain := Some (length N + 4)\<rparr>)"
  using assms
  by (simp add: startAmbience_def platform_rec config_defs Let_def)

lemma startAmbience_thrown_rec:
  assumes "ctx e = Some \<lparr>ctx_state = s, currentTime = t, nodes = N, connections = C\<rparr>"
    and "musicGain e = None"
  shows "startAmbience e =
    (Thrown TypeError,
     e\<lparr>ctx := Some \<lparr>ctx_state = s, currentTime = t,
          nodes = N @
            [OscillatorNode Sawtooth \<lparr>pvalue = 50, scheduled = []\<rparr> None None,
             BiquadFilterNode \<lparr>pvalue = 120, scheduled = []\<rparr> \<lparr>pvalue = 5, scheduled = []\<rparr>,
             OscillatorNode Sine \<lparr>pvalue = 0.2, scheduled = []\<rparr> None None,
             GainNode \<lparr>pvalue = 20, scheduled = []\<rparr>,
             GainNode \<lparr>pvalue = 0.05, scheduled = []\<rparr>],
          connections = C @
            [(length N + 2, Input (length N + 3)),
             (length N + 3, FilterFrequency (length N + 1)),
             (length N, Input (length N + 1)),
             (length N + 1, Input (length N + 4))]\<rparr>,
        droneOsc := Some (length N), droneGain := Some (length N + 4)\<rparr>)"
  using assms
  by (simp add: startAmbience_def platform_rec config_defs Let_def)

lemma init_rec:
  assumes "\<not> initialized e" and "has_AudioContext plat \<or> has_webkitAudioContext plat"
  shows "init plat e =
    (Returned (),
     e\<lparr>ctx := Some \<lparr>ctx_state = starts plat, currentTime = 0,
          nodes =
            [GainNode \<lparr>pvalue = 1, scheduled = []\<rparr>,
             GainNode \<lparr>pvalue = 1, scheduled = []\<rparr>,
             GainNode \<lparr>pvalue = 1, scheduled = []\<rparr>,
             OscillatorNode Sawtooth \<lparr>pvalue = 50, scheduled = []\<rparr> (Some 0) None,
             BiquadFilterNode \<lparr>pvalue = 120, scheduled = []\<rparr> \<lparr>pvalue = 5, scheduled = []\<rparr>,
             OscillatorNode Sine \<lparr>pvalue = 0.2, scheduled = []\<rparr> (Some 0) None,
             GainNode \<lparr>pvalue = 20, scheduled = []\<rparr>,
             GainNode \<lparr>pvalue = 0.05, scheduled = []\<rparr>],
          connections =
            [(0, Destination), (1, Input 0), (2, Input 0),
             (5, Input 6), (6, FilterFrequency 4), (3, Input 4), (4, Input 7), (7, Input 1)]\<rparr>,
        masterGain := Some 0, musicGain := Some 1, sfxGain := Some 2,
        droneOsc := Some 3, droneGain := Some 7, initialized := True\<rparr>)"
proof -
  let ?N = "[GainNode \<lparr>pvalue = 1, scheduled = []\<rparr>, GainNode \<lparr>pvalue = 1, scheduled = []\<rparr>,
             GainNode \<lparr>pvalue = 1, scheduled = []\<rparr>]"
  let ?C = "[(0, Destination), (1, Input 0), (2::nat, Input 0)]"
  let ?e1 = "e\<lparr>ctx := Some \<lparr>ctx_state = starts plat, currentTime = 0, nodes = ?N,
                              connections = ?C\<rparr>,
               masterGain := Some 0, musicGain := Some 1, sfxGain := Some 2,
               initialized := True\<rparr>"
  have a: "init plat e = startAmbience ?e1"
    using assms
    by (simp add: init_def new_context_def createGain_def connect_def Let_def numeral_2_eq_2)
  have b: "ctx ?e1 = Some \<lparr>ctx_state = starts plat, currentTime = 0, nodes = ?N, connections = ?C\<rparr>"
    by simp
  have c: "musicGain ?e1 = Some 1" by simp
  show ?thesis
    unfolding a startAmbience_rec[OF b c] by simp
qed

lemma playClickSound_rec:
  assumes "initialized e" and "\<not> isMuted e"
    and "ctx e = Some \<lparr>ctx_state = s, currentTime = t, nodes = N, connections = C\<rparr>"
    and "sfxGain e = Some sf"
  shows "playClickSound e =
    (Returned (),
     e\<lparr>ctx := Some \<lparr>ctx_state = s, currentTime = t,
          nodes = N @
            [OscillatorNode Sawtooth
               \<lparr>pvalue = 440,
                scheduled = [SetValueAtTime 1200 t, ExponentialRampToValueAtTime 100 (t + 0.1)]\<rparr>
               (Some t) (Some (t + 0.15)),
             GainNode
               \<lparr>pvalue = 1,
                scheduled = [SetValueAtTime 0.5 t, ExponentialRampToValueAtTime 0.01 (t + 0.1)]\<rparr>],
          connections = C @ [(length N, Input (length N + 1)), (length N + 1, Input sf)]\<rparr>\<rparr>)"
  using assms
  by (simp add: playClickSound_def platform_rec config_defs Let_def)

lemma playHoverSound_rec:
  assumes "initialized e" and "\<not> isMuted e"
    and "ctx e = Some \<lparr>ctx_state = s, currentTime = t, nodes = N, connections = C\<rparr>"
    and "sfxGain e = Some sf"
  shows "playHoverSound r e =
    (Returned (),
     e\<lparr>ctx := Some \<lparr>ctx_state = s, currentTime = t,
          nodes = N @
            [OscillatorNode Square
               \<lparr>pvalue = 440, scheduled = [SetValueAtTime (800 + r * 200) t]\<rparr>
               (Some t) (Some (t + 0.05)),
             GainNode
               \<lparr>pvalue = 1,
                scheduled = [SetValueAtTime 0.05 t, ExponentialRampToValueAtTime 0.001 (t + 0.05)]\<rparr>],
          connections = C @ [(length N, Input (length N + 1)), (length N + 1, Input sf)]\<rparr>\<rparr>)"
  using assms
  by (simp add: playHoverSound_def platform_rec Let_def)

lemma playSound_click_rec:
  "playSound volume ''click''
      (Some \<lparr>ctx_state = s, currentTime = t, nodes = N, connections = C\<rparr>) =
    (Returned (),
     Some \<lparr>ctx_state = s, currentTime = t,
          nodes = N @
            [OscillatorNode Square
               \<lparr>pvalue = 440,
                scheduled = [SetValueAtTime 800 t, ExponentialRampToValueAtTime 1200 (t + 0.05)]\<rparr>
               (Some t) (Some (t + 0.05)),
             GainNode
               \<lparr>pvalue = 1,
                scheduled = [SetValueAtTime (volume * 0.5) t,
                             ExponentialRampToValueAtTime 0.01 (t + 0.05)]\<rparr>],
          connections = C @ [(length N, Input (length N + 1)), (length N + 1, Destination)]\<rparr>)"
  by (simp add: playSound_def platform_rec Let_def)

lemma ok_append:
  assumes "ok \<lparr>ctx_state = s, currentTime = t, nodes = N, connections = C\<rparr> i"
  shows "ok \<lparr>ctx_state = s', currentTime = t', nodes = N @ M, connections = C'\<rparr> i"
  using assms by (simp add: ok_def nth_append)

lemma ok_time:
  "ok (c\<lparr>currentTime := t\<rparr>) i = ok c i"
  by (simp add: ok_def)

lemma ok_modify:
  assumes "ok c i" and "0 \<le> level a" and "level a \<le> 1"
  shows "ok (modify j (on_gain (schedule a)) c) i"
proof (cases "j = i")
  case True
  then show ?thesis using assms
    by (auto simp: ok_def modify_def schedule_def levels_def split: node.splits)
next
  case False
  then show ?thesis using assms by (auto simp: ok_def modify_def)
qed

lemma gain_of_None: "gain_of e None = None"
  by (simp add: gain_of_def split: option.splits)

lemma gain_of_no_ctx: "ctx e = None \<Longrightarrow> gain_of e field = None"
  by (simp add: gain_of_def)

lemma clamped_None: "clamped None"
  by (simp add: clamped_def)

lemma ok_clamped:
  assumes "ctx e = Some c" and "ok c i"
  shows "clamped (gain_of e (Some i))"
  using assms by (cases "nodes c ! i") (simp_all add: ok_def gain_of_def clamped_def)

lemma ok_present:
  assumes "ctx e = Some c" and "ok c i"
  shows "gain_of e (Some i) \<noteq> None"
  using assms by (cases "nodes c ! i") (simp_all add: ok_def gain_of_def)

lemma good_gains_clamped:
  assumes "good e"
  shows "gains_clamped e"
proof (cases "ctx e")
  case None
  then show ?thesis by (simp add: gains_clamped_def gain_of_no_ctx clamped_None)
next
  case (Some c)
  with assms obtain mg mu sf d where f: "masterGain e = Some mg" "musicGain e = Some mu"
    "sfxGain e = Some sf" "droneGain e = Some d" "ok c mg" "ok c mu" "ok c sf" "ok c d"
    by (auto simp: good_def)
  show ?thesis
    unfolding gains_clamped_def f(1-4) using f(5-8) ok_clamped[OF Some] by simp
qed

lemma good_gains_present:
  assumes "good e" and "initialized e"
  shows "gains_present e"
proof (cases "ctx e")
  case None
  with assms show ?thesis by (simp add: good_def)
next
  case (Some c)
  with assms obtain mg mu sf d where f: "masterGain e = Some mg" "musicGain e = Some mu"
    "sfxGain e = Some sf" "droneGain e = Some d" "ok c mg" "ok c mu" "ok c sf" "ok c d"
    by (auto simp: good_def)
  show ?thesis
    unfolding gains_present_def f(1-4) using f(5-8) ok_present[OF Some] by simp
qed

lemma good_new: "good new_engine"
  by (simp add: good_def new_engine_def)

lemma goodI:
  assumes "ctx e = Some c" and "masterGain e = Some mg" and "musicGain e = Some mu"
    and "sfxGain e = Some sf" and "droneGain e = Some d"
    and "ok c mg" and "ok c mu" and "ok c sf" and "ok c d"
  shows "good e"
  using assms by (simp add: good_def)

lemma goodD:
  assumes "good e" and "ctx e = Some c"
  shows "\<exists>mg mu sf d. masterGain e = Some mg \<and> musicGain e = Some mu \<and> sfxGain e = Some sf \<and>
           droneGain e = Some d \<and> ok c mg \<and> ok c mu \<and> ok c sf \<and> ok c d"
  using assms by (simp add: good_def)

lemma good_no_ctx: "good e \<Longrightarrow> ctx e = None \<Longrightarrow> \<not> initialized e"
  by (simp add: good_def)

lemma good_init:
  assumes "good e"
  shows "good (snd (init plat e))"
proof (cases "initialized e \<or> \<not> (has_AudioContext plat \<or> has_webkitAudioContext plat)")
  case True
  then show ?thesis using assms by (auto simp: init_def)
next
  case False
  then have a: "\<not> initialized e" "has_AudioContext plat \<or> has_webkitAudioContext plat" by auto
  show ?thesis
    unfolding init_rec[OF a]
    by (rule goodI[where mg = 0 and mu = 1 and sf = 2 and d = 7], simp)
       (simp_all add: ok_def levels_def)
qed

lemma good_startAmbience:
  assumes "good e"
  shows "good (snd (startAmbience e))"
proof (cases "ctx e")
  case None
  then show ?thesis using assms by (simp add: startAmbience_def)
next
  case (Some c)
  obtain s t N C where c: "c = \<lparr>ctx_state = s, currentTime = t, nodes = N, connections = C\<rparr>"
    by (cases c) simp
  obtain mg mu sf d where f: "masterGain e = Some mg" "musicGain e = Some mu"
    "sfxGain e = Some sf" "droneGain e = Some d" "ok c mg" "ok c mu" "ok c sf" "ok c d"
    using goodD[OF assms(1) Some] by blast
  have ce: "ctx e = Some \<lparr>ctx_state = s, currentTime = t, nodes = N, connections = C\<rparr>"
    using Some c by simp
  let ?c' = "\<lparr>ctx_state = s, currentTime = t,
          nodes = N @
            [OscillatorNode Sawtooth \<lparr>pvalue = 50, scheduled = []\<rparr> (Some 0) None,
             BiquadFilterNode \<lparr>pvalue = 120, scheduled = []\<rparr> \<lparr>pvalue = 5, scheduled = []\<rparr>,
             OscillatorNode Sine \<lparr>pvalue = 0.2, scheduled = []\<rparr> (Some 0) None,
             GainNode \<lparr>pvalue = 20, scheduled = []\<rparr>,
             GainNode \<lparr>pvalue = 0.05, scheduled = []\<rparr>],
          connections = C @
            [(length N + 2, Input (length N + 3)),
             (length N + 3, FilterFrequency (length N + 1)),
             (length N, Input (length N + 1)),
             (length N + 1, Input (length N + 4)),
             (length N + 4, Input mu)]\<rparr>"
  have r: "snd (startAmbience e) =
      e\<lparr>ctx := Some ?c', droneOsc := Some (length N), droneGain := Some (length N + 4)\<rparr>"
    unfolding startAmbience_rec[OF ce f(2)] by simp
  have new: "ok ?c' (length N + 4)" by (simp add: ok_def levels_def nth_append)
  have old: "ok ?c' i" if "ok c i" for i using that unfolding c by (rule ok_append)
  show ?thesis
    unfolding r
    by (rule goodI[where c = ?c' and mg = mg and mu = mu and sf = sf and d = "length N + 4"])
       (use f new old in simp_all)
qed

lemma good_setVolumes:
  assumes "good e" and "0 \<le> musicVol" and "musicVol \<le> 100" and "0 \<le> sfxVol" and "sfxVol \<le> 100"
  shows "good (snd (setVolumes musicVol sfxVol e))"
proof (cases "initialized e")
  case False
  then show ?thesis using assms(1) by (simp add: setVolumes_def)
next
  case True
  then obtain c where c: "ctx e = Some c" using good_no_ctx[OF assms(1)] by (cases "ctx e") auto
  obtain mg mu sf d where f: "masterGain e = Some mg" "musicGain e = Some mu"
    "sfxGain e = Some sf" "droneGain e = Some d" "ok c mg" "ok c mu" "ok c sf" "ok c d"
    using goodD[OF assms(1) c] by blast
  let ?a = "SetTargetAtTime (musicVol / 100) (currentTime c) 0.1"
  let ?b = "SetTargetAtTime (sfxVol / 100) (currentTime c) 0.1"
  let ?c' = "modify sf (on_gain (schedule ?b)) (modify mu (on_gain (schedule ?a)) c)"
  have la: "0 \<le> level ?a" "level ?a \<le> 1" and lb: "0 \<le> level ?b" "level ?b \<le> 1"
    using assms(2-5) by simp_all
  have keep: "ok ?c' i" if "ok c i" for i
    using that by (intro ok_modify la lb)
  have r: "snd (setVolumes musicVol sfxVol e) = e\<lparr>ctx := Some ?c'\<rparr>"
    using True c f(2,3) by (simp add: setVolumes_def Let_def)
  show ?thesis
    unfolding r
    by (rule goodI[where c = ?c' and mg = mg and mu = mu and sf = sf and d = d])
       (use f keep in simp_all)
qed

lemma good_toggleMute:
  assumes "good e"
  shows "good (snd (toggleMute e))"
proof (cases "initialized e")
  case False
  then show ?thesis using assms(1) by (simp add: toggleMute_def)
next
  case True
  then obtain c where c: "ctx e = Some c" using good_no_ctx[OF assms(1)] by (cases "ctx e") auto
  obtain mg mu sf d where f: "masterGain e = Some mg" "musicGain e = Some mu"
    "sfxGain e = Some sf" "droneGain e = Some d" "ok c mg" "ok c mu" "ok c sf" "ok c d"
    using goodD[OF assms(1) c] by blast
  let ?a = "SetTargetAtTime (if \<not> isMuted e then 0 else 1) (currentTime c) 0.1"
  let ?c' = "modify mg (on_gain (schedule ?a)) c"
  have la: "0 \<le> level ?a" "level ?a \<le> 1" by simp_all
  have keep: "ok ?c' i" if "ok c i" for i
    using that by (intro ok_modify la)
  have r: "snd (toggleMute e) = e\<lparr>isMuted := \<not> isMuted e, ctx := Some ?c'\<rparr>"
    using True c f(1) by (simp add: toggleMute_def Let_def)
  show ?thesis
    unfolding r
    by (rule goodI[where c = ?c' and mg = mg and mu = mu and sf = sf and d = d])
       (use f keep in simp_all)
qed

lemma good_playClickSound:
  assumes "good e"
  shows "good (snd (playClickSound e))"
proof (cases "initialized e \<and> \<not> isMuted e")
  case False
  then show ?thesis using assms(1) by (auto simp: playClickSound_def)
next
  case True
  then obtain c where c: "ctx e = Some c" using good_no_ctx[OF assms(1)] by (cases "ctx e") auto
  obtain s t N C where c': "c = \<lparr>ctx_state = s, currentTime = t, nodes = N, connections = C\<rparr>"
    by (cases c) simp
  obtain mg mu sf d where f: "masterGain e = Some mg" "musicGain e = Some mu"
    "sfxGain e = Some sf" "droneGain e = Some d" "ok c mg" "ok c mu" "ok c sf" "ok c d"
    using goodD[OF assms(1) c] by blast
  have ce: "ctx e = Some \<lparr>ctx_state = s, currentTime = t, nodes = N, connections = C\<rparr>"
    using c c' by simp
  obtain M C' where r: "snd (playClickSound e) =
      e\<lparr>ctx := Some \<lparr>ctx_state = s, currentTime = t, nodes = N @ M, connections = C'\<rparr>\<rparr>"
    unfolding playClickSound_rec[OF conjunct1[OF True] conjunct2[OF True] ce f(3)] by simp
  have old: "ok \<lparr>ctx_state = s, currentTime = t, nodes = N @ M, connections = C'\<rparr> i"
    if "ok c i" for i using that unfolding c' by (rule ok_append)
  show ?thesis
    unfolding r
    by (rule goodI[where c = "\<lparr>ctx_state = s, currentTime = t, nodes = N @ M, connections = C'\<rparr>"
          and mg = mg and mu = mu and sf = sf and d = d])
       (use f old in simp_all)
qed

lemma good_playHoverSound:
  assumes "good e"
  shows "good (snd (playHoverSound r e))"
proof (cases "initialized e \<and> \<not> isMuted e")
  case False
  then show ?thesis using assms(1) by (auto simp: playHoverSound_def)
next
  case True
  then obtain c where c: "ctx e = Some c" using good_no_ctx[OF assms(1)] by (cases "ctx e") auto
  obtain s t N C where c': "c = \<lparr>ctx_state = s, currentTime = t, nodes = N, connections = C\<rparr>"
    by (cases c) simp
  obtain mg mu sf d where f: "masterGain e = Some mg" "musicGain e = Some mu"
    "sfxGain e = Some sf" "droneGain e = Some d" "ok c mg" "ok c mu" "ok c sf" "ok c d"
    using goodD[OF assms(1) c] by blast
  have ce: "ctx e = Some \<lparr>ctx_state = s, currentTime = t, nodes = N, connections = C\<rparr>"
    using c c' by simp
  obtain M C' where r: "snd (playHoverSound r e) =
      e\<lparr>ctx := Some \<lparr>ctx_state = s, currentTime = t, nodes = N @ M, connections = C'\<rparr>\<rparr>"
    unfolding playHoverSound_rec[OF conjunct1[OF True] conjunct2[OF True] ce f(3)] by simp
  have old: "ok \<lparr>ctx_state = s, currentTime = t, nodes = N @ M, connections = C'\<rparr> i"
    if "ok c i" for i using that unfolding c' by (rule ok_append)
  show ?thesis
    unfolding r
    by (rule goodI[where c = "\<lparr>ctx_state = s, currentTime = t, nodes = N @ M, connections = C'\<rparr>"
          and mg = mg and mu = mu and sf = sf and d = d])
       (use f old in simp_all)
qed

lemma good_elapse:
  assumes "good e"
  shows "good (apply_op plat (Elapse ms) e)"
proof (cases "ctx e")
  case None
  then show ?thesis using assms by (simp add: good_def)
next
  case (Some c)
  obtain mg mu sf d where f: "masterGain e = Some mg" "musicGain e = Some mu"
    "sfxGain e = Some sf" "droneGain e = Some d" "ok c mg" "ok c mu" "ok c sf" "ok c d"
    using goodD[OF assms(1) Some] by blast
  show ?thesis
    by (rule goodI[where mg = mg and mu = mu and sf = sf and d = d and
          c = "c\<lparr>currentTime := currentTime c + real ms / 1000\<rparr>"])
       (use f Some in \<open>simp_all add: ok_time\<close>)
qed

lemma good_apply_op:
  assumes "good e" and "volumes_in_range a"
  shows "good (apply_op plat a e)"
proof (cases a)
  case Init
  then show ?thesis using good_init[OF assms(1)] by simp
next
  case StartAmbience
  then show ?thesis using good_startAmbience[OF assms(1)] by simp
next
  case (SetVolumes m s)
  then show ?thesis using good_setVolumes[OF assms(1), of m s] assms(2) by simp
next
  case ToggleMute
  then show ?thesis using good_toggleMute[OF assms(1)] by simp
next
  case PlayClickSound
  then show ?thesis using good_playClickSound[OF assms(1)] by simp
next
  case (PlayHoverSound r)
  then show ?thesis using good_playHoverSound[OF assms(1)] by simp
next
  case (Elapse ms)
  then show ?thesis using good_elapse[OF assms(1)] by simp
qed

lemma good_apply_ops:
  assumes "good e" and "\<forall>a\<in>set ops. volumes_in_range a"
  shows "good (apply_ops plat ops e)"
  using assms
proof (induction ops arbitrary: e)
  case Nil
  then show ?case by simp
next
  case (Cons a ops)
  then show ?case using good_apply_op[of e a plat] by simp
qed

lemma target_curve_between:
  assumes "lo \<le> v0" and "v0 \<le> hi" and "lo \<le> target" and "target \<le> hi"
    and "0 \<le> dt" and "0 < tc"
  shows "lo \<le> target_curve v0 target tc dt \<and> target_curve v0 target tc dt \<le> hi"
proof -
  let ?k = "exp (- (dt / tc))"
  have k: "0 \<le> ?k" "?k \<le> 1" using assms(5,6) by simp_all
  have eq: "target_curve v0 target tc dt = ?k * v0 + (1 - ?k) * target"
    by (simp add: target_curve_def algebra_simps)
  have "lo = ?k * lo + (1 - ?k) * lo" by (simp add: algebra_simps)
  also have "\<dots> \<le> ?k * v0 + (1 - ?k) * target"
    using k assms(1,3) by (intro add_mono mult_left_mono) simp_all
  finally have 1: "lo \<le> target_curve v0 target tc dt" unfolding eq .
  have "?k * v0 + (1 - ?k) * target \<le> ?k * hi + (1 - ?k) * hi"
    using k assms(2,4) by (intro add_mono mult_left_mono) simp_all
  also have "\<dots> = hi" by (simp add: algebra_simps)
  finally have 2: "target_curve v0 target tc dt \<le> hi" unfolding eq .
  show ?thesis using 1 2 by simp
qed

lemma uninitialized_ops:
  assumes "\<not> initialized e"
  shows "setVolumes m s e = (Returned (), e)" and "toggleMute e = (Returned False, e)"
    and "playClickSound e = (Returned (), e)" and "playHoverSound r e = (Returned (), e)"
  using assms by (simp_all add: setVolumes_def toggleMute_def playClickSound_def playHoverSound_def)

lemma startAmbience_no_ctx: "ctx e = None \<Longrightarrow> startAmbience e = (Returned (), e)"
  by (simp add: startAmbience_def)

lemma init_no_api:
  assumes "\<not> initialized e" and "\<not> has_AudioContext plat" and "\<not> has_webkitAudioContext plat"
  shows "init plat e = (Thrown TypeError, e)"
  using assms by (simp add: init_def)

lemma initialized_startAmbience: "initialized (snd (startAmbience e)) = initialized e"
proof (cases "ctx e")
  case None
  then show ?thesis by (simp add: startAmbience_no_ctx)
next
  case (Some c)
  obtain s t N C where c: "ctx e = Some \<lparr>ctx_state = s, currentTime = t, nodes = N, connections = C\<rparr>"
    using Some by (cases c) simp
  show ?thesis
  proof (cases "musicGain e")
    case None
    show ?thesis unfolding startAmbience_thrown_rec[OF c None] by simp
  next
    case (Some mu)
    show ?thesis unfolding startAmbience_rec[OF c Some] by simp
  qed
qed

lemma initialized_kept:
  assumes "initialized e"
  shows "initialized (apply_op plat a e)"
proof (cases a)
  case Init
  then show ?thesis using assms by (simp add: init_def)
next
  case StartAmbience
  then show ?thesis using assms by (simp add: initialized_startAmbience)
next
  case (SetVolumes m s)
  then show ?thesis using assms
    by (simp add: setVolumes_def Let_def split: option.splits)
next
  case ToggleMute
  then show ?thesis using assms
    by (simp add: toggleMute_def Let_def split: option.splits)
next
  case PlayClickSound
  then show ?thesis using assms
    by (simp add: playClickSound_def Let_def split: option.splits prod.splits)
next
  case (PlayHoverSound r)
  then show ?thesis using assms
    by (simp add: playHoverSound_def Let_def split: option.splits prod.splits)
next
  case (Elapse ms)
  then show ?thesis using assms by simp
qed

lemma initialized_kept_ops:
  "initialized e \<Longrightarrow> initialized (apply_ops plat ops e)"
  by (induction ops arbitrary: e) (simp_all add: initialized_kept)

lemma new_engine_step:
  "apply_op plat a new_engine = new_engine \<or> initialized (apply_op plat a new_engine)"
proof (cases a)
  case Init
  show ?thesis
  proof (cases "has_AudioContext plat \<or> has_webkitAudioContext plat")
    case True
    have "\<not> initialized new_engine" by (simp add: new_engine_def)
    from init_rec[OF this True] show ?thesis using Init by simp
  next
    case False
    then show ?thesis using Init by (simp add: init_def new_engine_def)
  qed
next
  case StartAmbience
  then show ?thesis by (simp add: startAmbience_no_ctx new_engine_def)
next
  case (SetVolumes m s)
  then show ?thesis by (simp add: uninitialized_ops new_engine_def)
next
  case ToggleMute
  then show ?thesis by (simp add: uninitialized_ops new_engine_def)
next
  case PlayClickSound
  then show ?thesis by (simp add: uninitialized_ops new_engine_def)
next
  case (PlayHoverSound r)
  then show ?thesis by (simp add: uninitialized_ops new_engine_def)
next
  case (Elapse ms)
  then show ?thesis by (simp add: new_engine_def)
qed

lemma uninitialized_is_new:
  "\<not> initialized (apply_ops plat ops new_engine) \<Longrightarrow> apply_ops plat ops new_engine = new_engine"
proof (induction ops)
  case Nil
  show ?case by simp
next
  case (Cons a ops)
  from new_engine_step[of plat a] show ?case
  proof
    assume "apply_op plat a new_engine = new_engine"
    then show ?thesis using Cons by simp
  next
    assume "initialized (apply_op plat a new_engine)"
    then have "initialized (apply_ops plat (a # ops) new_engine)"
      by (simp add: initialized_kept_ops)
    with Cons.prems show ?thesis by simp
  qed
qed

text \<open>
  Claim C10. On an engine whose \<^verbatim>\<open>initialized\<close> flag is false, \<^verbatim>\<open>setVolumes\<close>,
  \<^verbatim>\<open>toggleMute\<close>, \<^verbatim>\<open>playClickSound\<close> and \<^verbatim>\<open>playHoverSound\<close> return and leave the engine
  as it was, and \<^verbatim>\<open>toggleMute\<close> returns false. An engine that is not initialized after any
  sequence of calls is still the engine the constructor built, so false is its mute flag.
\<close>

theorem uninitialized_engine_is_inert:
  "(\<not> initialized e \<longrightarrow>
      setVolumes musicVol sfxVol e = (Returned (), e) \<and> toggleMute e = (Returned False, e) \<and>
      playClickSound e = (Returned (), e) \<and> playHoverSound r e = (Returned (), e)) \<and>
   (\<not> initialized (apply_ops plat ops new_engine) \<longrightarrow>
      apply_ops plat ops new_engine = new_engine \<and>
      isMuted (apply_ops plat ops new_engine) = False)"
proof -
  have "isMuted new_engine = False" by (simp add: new_engine_def)
  then show ?thesis using uninitialized_ops[of e] uninitialized_is_new[of plat ops] by auto
qed

text \<open>C10, an instance: the new engine, and calls on a platform without the audio interface.\<close>

theorem uninitialized_engine_is_inert_witness:
  "\<not> initialized new_engine \<and>
   setVolumes 40 80 new_engine = (Returned (), new_engine) \<and>
   toggleMute new_engine = (Returned False, new_engine) \<and>
   playClickSound new_engine = (Returned (), new_engine) \<and>
   playHoverSound 0.5 new_engine = (Returned (), new_engine) \<and>
   \<not> initialized (apply_ops \<lparr>has_AudioContext = False, has_webkitAudioContext = False, starts = Running\<rparr>
                    [Init, ToggleMute, SetVolumes 40 80, StartAmbience, Elapse 20] new_engine) \<and>
   isMuted (apply_ops \<lparr>has_AudioContext = False, has_webkitAudioContext = False, starts = Running\<rparr>
              [Init, ToggleMute, SetVolumes 40 80, StartAmbience, Elapse 20] new_engine) = False"
proof -
  let ?p = "\<lparr>has_AudioContext = False, has_webkitAudioContext = False, starts = Running\<rparr>"
  let ?ops = "[Init, ToggleMute, SetVolumes 40 80, StartAmbience, Elapse 20]"
  have n: "\<not> initialized new_engine" by (simp add: new_engine_def)
  have c: "ctx new_engine = None" by (simp add: new_engine_def)
  have r: "apply_ops ?p ?ops new_engine = new_engine"
    by (simp add: init_no_api[OF n] uninitialized_ops[OF n] startAmbience_no_ctx[OF c] c)
  note t = uninitialized_engine_is_inert[of new_engine 40 80 "0.5" ?p ?ops, unfolded r]
  show ?thesis
    unfolding r using t n by simp
qed

text \<open>
  Claim C4 at a window that has neither \<^verbatim>\<open>AudioContext\<close> nor \<^verbatim>\<open>webkitAudioContext\<close>:
  \<^verbatim>\<open>AudioEngine.init\<close> and the \<^verbatim>\<open>initAudio\<close> of \<^verbatim>\<open>index.js\<close> throw a \<^verbatim>\<open>TypeError\<close>, the
  later \<^verbatim>\<open>initAudio\<close> returns; every other operation returns and changes nothing.
\<close>

theorem init_without_audio_api:
  "init \<lparr>has_AudioContext = False, has_webkitAudioContext = False, starts = Running\<rparr> new_engine
     = (Thrown TypeError, new_engine) \<and>
   initAudio_index \<lparr>has_AudioContext = False, has_webkitAudioContext = False, starts = Running\<rparr> None
     = (Thrown TypeError, None) \<and>
   initAudio \<lparr>has_AudioContext = False, has_webkitAudioContext = False, starts = Running\<rparr> None
     = (Returned (), None) \<and>
   startAmbience new_engine = (Returned (), new_engine) \<and>
   setVolumes 40 80 new_engine = (Returned (), new_engine) \<and>
   toggleMute new_engine = (Returned False, new_engine) \<and>
   playClickSound new_engine = (Returned (), new_engine) \<and>
   playHoverSound 0.5 new_engine = (Returned (), new_engine) \<and>
   playSound 0.5 ''click'' None = (Returned (), None)"
proof -
  have n: "\<not> initialized new_engine" by (simp add: new_engine_def)
  have c: "ctx new_engine = None" by (simp add: new_engine_def)
  show ?thesis
    by (simp add: init_no_api[OF n] uninitialized_ops[OF n] startAmbience_no_ctx[OF c]
          initAudio_index_def initAudio_def playSound_def)
qed

text \<open>C4, read off at the engine: the call of \<^verbatim>\<open>init\<close> throws and leaves the engine untouched.\<close>

theorem init_without_audio_api_witness:
  "fst (init \<lparr>has_AudioContext = False, has_webkitAudioContext = False, starts = Running\<rparr>
          new_engine) = Thrown TypeError \<and>
   snd (init \<lparr>has_AudioContext = False, has_webkitAudioContext = False, starts = Running\<rparr>
          new_engine) = new_engine"
  using init_without_audio_api by simp

lemma playSound_click:
  "playSound volume ''click'' (Some c) =
    (Returned (),
     Some (c\<lparr>nodes := nodes c @
            [OscillatorNode Square
               \<lparr>pvalue = 440,
                scheduled = [SetValueAtTime 800 (currentTime c),
                             ExponentialRampToValueAtTime 1200 (currentTime c + 0.05)]\<rparr>
               (Some (currentTime c)) (Some (currentTime c + 0.05)),
             GainNode
               \<lparr>pvalue = 1,
                scheduled = [SetValueAtTime (volume * 0.5) (currentTime c),
                             ExponentialRampToValueAtTime 0.01 (currentTime c + 0.05)]\<rparr>],
          connections := connections c @
            [(length (nodes c), Input (length (nodes c) + 1)),
             (length (nodes c) + 1, Destination)]\<rparr>))"
  by (cases c) (simp add: playSound_click_rec)

lemma playClickSound_ok:
  assumes "initialized e" and "\<not> isMuted e" and "ctx e = Some c" and "sfxGain e = Some sf"
  shows "playClickSound e =
    (Returned (),
     e\<lparr>ctx := Some (c\<lparr>nodes := nodes c @
            [OscillatorNode Sawtooth
               \<lparr>pvalue = 440,
                scheduled = [SetValueAtTime 1200 (currentTime c),
                             ExponentialRampToValueAtTime 100 (currentTime c + 0.1)]\<rparr>
               (Some (currentTime c)) (Some (currentTime c + 0.15)),
             GainNode
               \<lparr>pvalue = 1,
                scheduled = [SetValueAtTime 0.5 (currentTime c),
                             ExponentialRampToValueAtTime 0.01 (currentTime c + 0.1)]\<rparr>],
          connections := connections c @
            [(length (nodes c), Input (length (nodes c) + 1)),
             (length (nodes c) + 1, Input sf)]\<rparr>)\<rparr>)"
proof -
  obtain s t N C where c: "c = \<lparr>ctx_state = s, currentTime = t, nodes = N, connections = C\<rparr>"
    by (cases c) simp
  have ce: "ctx e = Some \<lparr>ctx_state = s, currentTime = t, nodes = N, connections = C\<rparr>"
    using assms(3) c by simp
  show ?thesis
    unfolding playClickSound_rec[OF assms(1,2) ce assms(4)] by (simp add: c)
qed

text \<open>
  Claim C8, as the code has it. \<^verbatim>\<open>playSound('click')\<close> of the hook makes a square-wave
  oscillator whose frequency rises from 800 to 1200 Hz and which stops 50 ms after it
  starts. \<^verbatim>\<open>AudioEngine.playClickSound\<close>, on an initialized engine that is not muted, makes
  a sawtooth oscillator whose frequency falls from 1200 to 100 Hz within 100 ms and which
  stops 150 ms after it starts.
\<close>

theorem click_sound_synthesis:
  "playSound volume ''click'' (Some c) =
    (Returned (),
     Some (c\<lparr>nodes := nodes c @
            [OscillatorNode Square
               \<lparr>pvalue = 440,
                scheduled = [SetValueAtTime 800 (currentTime c),
                             ExponentialRampToValueAtTime 1200 (currentTime c + 0.05)]\<rparr>
               (Some (currentTime c)) (Some (currentTime c + 0.05)),
             GainNode
               \<lparr>pvalue = 1,
                scheduled = [SetValueAtTime (volume * 0.5) (currentTime c),
                             ExponentialRampToValueAtTime 0.01 (currentTime c + 0.05)]\<rparr>],
          connections := connections c @
            [(length (nodes c), Input (length (nodes c) + 1)),
             (length (nodes c) + 1, Destination)]\<rparr>)) \<and>
   (initialized e \<and> \<not> isMuted e \<and> ctx e = Some c' \<and> sfxGain e = Some sf \<longrightarrow>
    playClickSound e =
    (Returned (),
     e\<lparr>ctx := Some (c'\<lparr>nodes := nodes c' @
            [OscillatorNode Sawtooth
               \<lparr>pvalue = 440,
                scheduled = [SetValueAtTime 1200 (currentTime c'),
                             ExponentialRampToValueAtTime 100 (currentTime c' + 0.1)]\<rparr>
               (Some (currentTime c')) (Some (currentTime c' + 0.15)),
             GainNode
               \<lparr>pvalue = 1,
                scheduled = [SetValueAtTime 0.5 (currentTime c'),
                             ExponentialRampToValueAtTime 0.01 (currentTime c' + 0.1)]\<rparr>],
          connections := connections c' @
            [(length (nodes c'), Input (length (nodes c') + 1)),
             (length (nodes c') + 1, Input sf)]\<rparr>)\<rparr>))"
  using playSound_click[of volume c] playClickSound_ok[of e c' sf] by blast

lemma init_running:
  "init \<lparr>has_AudioContext = True, has_webkitAudioContext = False, starts = st\<rparr> new_engine =
    (Returned (),
     \<lparr>ctx = Some \<lparr>ctx_state = st, currentTime = 0,
          nodes =
            [GainNode \<lparr>pvalue = 1, scheduled = []\<rparr>,
             GainNode \<lparr>pvalue = 1, scheduled = []\<rparr>,
             GainNode \<lparr>pvalue = 1, scheduled = []\<rparr>,
             OscillatorNode Sawtooth \<lparr>pvalue = 50, scheduled = []\<rparr> (Some 0) None,
             BiquadFilterNode \<lparr>pvalue = 120, scheduled = []\<rparr> \<lparr>pvalue = 5, scheduled = []\<rparr>,
             OscillatorNode Sine \<lparr>pvalue = 0.2, scheduled = []\<rparr> (Some 0) None,
             GainNode \<lparr>pvalue = 20, scheduled = []\<rparr>,
             GainNode \<lparr>pvalue = 0.05, scheduled = []\<rparr>],
          connections =
            [(0, Destination), (1, Input 0), (2, Input 0),
             (5, Input 6), (6, FilterFrequency 4), (3, Input 4), (4, Input 7), (7, Input 1)]\<rparr>,
      masterGain = Some 0, musicGain = Some 1, sfxGain = Some 2,
      droneOsc = Some 3, droneGain = Some 7, isMuted = False, initialized = True\<rparr>)"
proof -
  have n: "\<not> initialized new_engine" by (simp add: new_engine_def)
  show ?thesis
    by (subst init_rec[OF n]) (simp_all add: new_engine_def)
qed

text \<open>C8, an instance: the click of a freshly initialized engine.\<close>

theorem click_sound_synthesis_witness:
  "initialized (snd (init \<lparr>has_AudioContext = True, has_webkitAudioContext = False, starts = Running\<rparr> new_engine)) \<and>
   \<not> isMuted (snd (init \<lparr>has_AudioContext = True, has_webkitAudioContext = False, starts = Running\<rparr> new_engine)) \<and>
   sfxGain (snd (init \<lparr>has_AudioContext = True, has_webkitAudioContext = False, starts = Running\<rparr> new_engine)) = Some 2 \<and>
   (\<exists>c. ctx (snd (init \<lparr>has_AudioContext = True, has_webkitAudioContext = False, starts = Running\<rparr> new_engine)) = Some c \<and>
        length (nodes c) = 8 \<and> currentTime c = 0 \<and>
        map_option nodes (ctx (snd (playClickSound
           (snd (init \<lparr>has_AudioContext = True, has_webkitAudioContext = False, starts = Running\<rparr> new_engine))))) =
        Some (nodes c @
            [OscillatorNode Sawtooth
               \<lparr>pvalue = 440,
                scheduled = [SetValueAtTime 1200 0, ExponentialRampToValueAtTime 100 0.1]\<rparr>
               (Some 0) (Some 0.15),
             GainNode
               \<lparr>pvalue = 1,
                scheduled = [SetValueAtTime 0.5 0, ExponentialRampToValueAtTime 0.01 0.1]\<rparr>]))"
proof -
  let ?p = "\<lparr>has_AudioContext = True, has_webkitAudioContext = False, starts = Running\<rparr>"
  define e where "e = snd (init ?p new_engine)"
  obtain c where c: "ctx e = Some c" "length (nodes c) = 8" "currentTime c = 0"
    unfolding e_def init_running by simp
  have f: "initialized e" "\<not> isMuted e" "sfxGain e = Some 2"
    unfolding e_def init_running by simp_all
  from click_sound_synthesis[of 1 c e c 2] f c(1)
  have "playClickSound e =
    (Returned (),
     e\<lparr>ctx := Some (c\<lparr>nodes := nodes c @
            [OscillatorNode Sawtooth
               \<lparr>pvalue = 440,
                scheduled = [SetValueAtTime 1200 (currentTime c),
                             ExponentialRampToValueAtTime 100 (currentTime c + 0.1)]\<rparr>
               (Some (currentTime c)) (Some (currentTime c + 0.15)),
             GainNode
               \<lparr>pvalue = 1,
                scheduled = [SetValueAtTime 0.5 (currentTime c),
                             ExponentialRampToValueAtTime 0.01 (currentTime c + 0.1)]\<rparr>],
          connections := connections c @
            [(length (nodes c), Input (length (nodes c) + 1)),
             (length (nodes c) + 1, Input 2)]\<rparr>)\<rparr>)"
    by blast
  then have "map_option nodes (ctx (snd (playClickSound e))) =
        Some (nodes c @
            [OscillatorNode Sawtooth
               \<lparr>pvalue = 440,
                scheduled = [SetValueAtTime 1200 0, ExponentialRampToValueAtTime 100 0.1]\<rparr>
               (Some 0) (Some 0.15),
             GainNode
               \<lparr>pvalue = 1,
                scheduled = [SetValueAtTime 0.5 0, ExponentialRampToValueAtTime 0.01 0.1]\<rparr>])"
    using c(3) by simp
  then show ?thesis using f c unfolding e_def by blast
qed

text \<open>
  C8 as stated fails for \<^verbatim>\<open>playClickSound\<close>: the oscillator it adds to a freshly
  initialized engine is a sawtooth, its frequency falls, and it stops after 150 ms.
\<close>

theorem click_sound_counterexample:
  "map_option (\<lambda>c. nodes c ! 8)
     (ctx (snd (playClickSound
        (snd (init \<lparr>has_AudioContext = True, has_webkitAudioContext = False, starts = Running\<rparr>
                new_engine))))) =
   Some (OscillatorNode Sawtooth
           \<lparr>pvalue = 440,
            scheduled = [SetValueAtTime 1200 0, ExponentialRampToValueAtTime 100 0.1]\<rparr>
           (Some 0) (Some 0.15)) \<and>
   Sawtooth \<noteq> Square \<and> (100::real) < 1200 \<and> (0.15::real) - 0 \<noteq> 0.05"
proof -
  let ?p = "\<lparr>has_AudioContext = True, has_webkitAudioContext = False, starts = Running\<rparr>"
  define e where "e = snd (init ?p new_engine)"
  obtain c where c: "ctx e = Some c" "length (nodes c) = 8" "currentTime c = 0"
    unfolding e_def init_running by simp
  have f: "initialized e" "\<not> isMuted e" "sfxGain e = Some 2"
    unfolding e_def init_running by simp_all
  show ?thesis
    unfolding e_def[symmetric] playClickSound_ok[OF f(1,2) c(1) f(3)]
    using c(2,3) by (simp add: nth_append)
qed

text \<open>
  Claim C6, as the code has it. After any sequence of operations in which every
  \<^verbatim>\<open>setVolumes\<close> call has both arguments in \<open>[0, 100]\<close>, each level that the master, music,
  effects and drone gain were told to take lies in \<open>[0, 1]\<close>, and on an initialized engine
  these four gain nodes exist; and a gain that moves from a
  value in \<open>[0, 1]\<close> towards a target in \<open>[0, 1]\<close> along the \<^verbatim>\<open>setTargetAtTime\<close> curve
  stays in \<open>[0, 1]\<close>.
\<close>

theorem gains_clamped_for_volumes_in_range:
  "((\<forall>a\<in>set ops. volumes_in_range a) \<longrightarrow>
      gains_clamped (apply_ops plat ops new_engine) \<and>
      (initialized (apply_ops plat ops new_engine) \<longrightarrow>
         gains_present (apply_ops plat ops new_engine))) \<and>
   (0 \<le> v0 \<and> v0 \<le> 1 \<and> 0 \<le> target \<and> target \<le> 1 \<and> 0 \<le> dt \<longrightarrow>
      0 \<le> target_curve v0 target 0.1 dt \<and> target_curve v0 target 0.1 dt \<le> 1)"
proof -
  have "gains_clamped (apply_ops plat ops new_engine) \<and>
      (initialized (apply_ops plat ops new_engine) \<longrightarrow>
         gains_present (apply_ops plat ops new_engine))"
    if "\<forall>a\<in>set ops. volumes_in_range a"
    using good_apply_ops[OF good_new that] good_gains_clamped good_gains_present by blast
  moreover have "0 \<le> target_curve v0 target 0.1 dt \<and> target_curve v0 target 0.1 dt \<le> 1"
    if "0 \<le> v0 \<and> v0 \<le> 1 \<and> 0 \<le> target \<and> target \<le> 1 \<and> 0 \<le> dt"
    using that target_curve_between[of 0 v0 1 target dt "0.1"] by simp
  ultimately show ?thesis by blast
qed

text \<open>C6, an instance: a session with volumes 40 and 80, then 0 and 100.\<close>

theorem gains_clamped_for_volumes_in_range_witness:
  "list_all volumes_in_range
     [Init, SetVolumes 40 80, ToggleMute, PlayClickSound, Elapse 500, ToggleMute,
      PlayHoverSound 0.5, StartAmbience, SetVolumes 0 100] \<and>
   initialized
     (apply_ops \<lparr>has_AudioContext = True, has_webkitAudioContext = False, starts = Running\<rparr>
        [Init, SetVolumes 40 80, ToggleMute, PlayClickSound, Elapse 500, ToggleMute,
         PlayHoverSound 0.5, StartAmbience, SetVolumes 0 100] new_engine) \<and>
   gains_present
     (apply_ops \<lparr>has_AudioContext = True, has_webkitAudioContext = False, starts = Running\<rparr>
        [Init, SetVolumes 40 80, ToggleMute, PlayClickSound, Elapse 500, ToggleMute,
         PlayHoverSound 0.5, StartAmbience, SetVolumes 0 100] new_engine) \<and>
   gains_clamped
     (apply_ops \<lparr>has_AudioContext = True, has_webkitAudioContext = False, starts = Running\<rparr>
        [Init, SetVolumes 40 80, ToggleMute, PlayClickSound, Elapse 500, ToggleMute,
         PlayHoverSound 0.5, StartAmbience, SetVolumes 0 100] new_engine) \<and>
   0 \<le> target_curve 1 0.4 0.1 2 \<and> target_curve 1 0.4 0.1 2 \<le> 1"
proof -
  let ?p = "\<lparr>has_AudioContext = True, has_webkitAudioContext = False, starts = Running\<rparr>"
  let ?rest = "[SetVolumes 40 80, ToggleMute, PlayClickSound, Elapse 500, ToggleMute,
                PlayHoverSound 0.5, StartAmbience, SetVolumes 0 100]"
  have "initialized (snd (init ?p new_engine))" unfolding init_running by simp
  then have "initialized (apply_ops ?p ?rest (snd (init ?p new_engine)))"
    by (rule initialized_kept_ops)
  then have i: "initialized (apply_ops ?p (Init # ?rest) new_engine)" by simp
  have r: "list_all volumes_in_range (Init # ?rest)" by simp
  then have "\<forall>a\<in>set (Init # ?rest). volumes_in_range a" by (simp only: list_all_iff)
  with gains_clamped_for_volumes_in_range[of "Init # ?rest" ?p 1 "0.4" 2] i
  have "gains_clamped (apply_ops ?p (Init # ?rest) new_engine)"
    "gains_present (apply_ops ?p (Init # ?rest) new_engine)"
    "0 \<le> target_curve 1 0.4 0.1 2 \<and> target_curve 1 0.4 0.1 2 \<le> 1"
    by simp_all
  then show ?thesis using i r by blast
qed

text \<open>
  C6 as stated fails: \<^verbatim>\<open>setVolumes(200, 50)\<close> gives the music gain the target 2, and one
  second later its value is above 1.
\<close>

theorem unclamped_volume_counterexample:
  "gain_of (apply_ops \<lparr>has_AudioContext = True, has_webkitAudioContext = False, starts = Running\<rparr>
              [Init, SetVolumes 200 50] new_engine) (Some 1)
     = Some \<lparr>pvalue = 1, scheduled = [SetTargetAtTime 2 0 0.1]\<rparr> \<and>
   musicGain (apply_ops \<lparr>has_AudioContext = True, has_webkitAudioContext = False, starts = Running\<rparr>
              [Init, SetVolumes 200 50] new_engine) = Some 1 \<and>
   \<not> gains_clamped
       (apply_ops \<lparr>has_AudioContext = True, has_webkitAudioContext = False, starts = Running\<rparr>
          [Init, SetVolumes 200 50] new_engine) \<and>
   1 < target_curve 1 2 0.1 1"
proof -
  let ?p = "\<lparr>has_AudioContext = True, has_webkitAudioContext = False, starts = Running\<rparr>"
  define e where "e = snd (init ?p new_engine)"
  define e' where "e' = snd (setVolumes 200 50 e)"
  have r: "apply_ops ?p [Init, SetVolumes 200 50] new_engine = e'"
    by (simp add: e'_def e_def)
  have g: "gain_of e' (Some 1) = Some \<lparr>pvalue = 1, scheduled = [SetTargetAtTime 2 0 0.1]\<rparr>"
    and m: "musicGain e' = Some 1"
    unfolding e'_def e_def init_running
    by (simp_all add: setVolumes_def Let_def modify_def schedule_def gain_of_def)
  have "\<not> clamped (gain_of e' (musicGain e'))"
    unfolding m g by (simp add: clamped_def levels_def)
  then have n: "\<not> gains_clamped e'" by (simp add: gains_clamped_def)
  have t: "1 < target_curve 1 2 0.1 1" by (simp add: target_curve_def)
  show ?thesis unfolding r using g m n t by simp
qed

lemma initAudio_existing:
  "initAudio plat (Some c) = (Returned (), Some (if ctx_state c = Suspended then resume c else c))"
  "initAudio_index plat (Some c) = (Returned (), Some (if ctx_state c = Suspended then resume c else c))"
  by (simp_all add: initAudio_def initAudio_index_def)

lemma initAudio_first:
  assumes "has_AudioContext plat \<or> has_webkitAudioContext plat"
  shows "initAudio plat None =
           (Returned (), Some (if starts plat = Suspended then resume (new_context plat)
                               else new_context plat))"
    and "initAudio_index plat None =
           (Returned (), Some (if starts plat = Suspended then resume (new_context plat)
                               else new_context plat))"
  using assms by (auto simp: initAudio_def initAudio_index_def new_context_def)

text \<open>
  Claim C7, as the code has it. \<^verbatim>\<open>AudioEngine.init\<close> on an initialized engine returns and
  changes nothing, so every call after a first successful one leaves the engine as the
  first call left it. Both versions of \<^verbatim>\<open>initAudio\<close> keep an existing context and its
  nodes, resume it when it is suspended, and create a context only when there is none; a
  second call changes nothing more.
\<close>

theorem init_idempotent_resume_in_hook_only:
  "(initialized e \<longrightarrow> init plat e = (Returned (), e)) \<and>
   (has_AudioContext plat \<or> has_webkitAudioContext plat \<longrightarrow>
      fst (init plat new_engine) = Returned () \<and>
      initialized (snd (init plat new_engine)) \<and>
      init plat' (snd (init plat new_engine)) = (Returned (), snd (init plat new_engine))) \<and>
   (\<forall>f\<in>{initAudio, initAudio_index}.
      (\<exists>c'. f plat (Some c) = (Returned (), Some c') \<and>
            nodes c' = nodes c \<and> connections c' = connections c \<and>
            ctx_state c' \<noteq> Suspended \<and> (ctx_state c \<noteq> Suspended \<longrightarrow> c' = c) \<and>
            f plat' (Some c') = (Returned (), Some c')) \<and>
      (has_AudioContext plat \<or> has_webkitAudioContext plat \<longrightarrow>
         (\<exists>c'. f plat None = (Returned (), Some c') \<and> nodes c' = [] \<and>
               ctx_state c' \<noteq> Suspended \<and> f plat' (Some c') = (Returned (), Some c'))))"
proof -
  have a: "init plat e = (Returned (), e)" if "initialized e" using that by (simp add: init_def)
  have b: "fst (init plat new_engine) = Returned () \<and> initialized (snd (init plat new_engine)) \<and>
      init plat' (snd (init plat new_engine)) = (Returned (), snd (init plat new_engine))"
    if api: "has_AudioContext plat \<or> has_webkitAudioContext plat"
  proof -
    have n: "\<not> initialized new_engine" by (simp add: new_engine_def)
    have 1: "fst (init plat new_engine) = Returned ()" "initialized (snd (init plat new_engine))"
      unfolding init_rec[OF n api] by simp_all
    then show ?thesis by (simp add: init_def)
  qed
  have c1: "\<exists>c'. f plat (Some c) = (Returned (), Some c') \<and>
            nodes c' = nodes c \<and> connections c' = connections c \<and>
            ctx_state c' \<noteq> Suspended \<and> (ctx_state c \<noteq> Suspended \<longrightarrow> c' = c) \<and>
            f plat' (Some c') = (Returned (), Some c')"
    if "f \<in> {initAudio, initAudio_index}" for f
    using that by (auto simp: initAudio_existing resume_def)
  have c2: "\<exists>c'. f plat None = (Returned (), Some c') \<and> nodes c' = [] \<and>
               ctx_state c' \<noteq> Suspended \<and> f plat' (Some c') = (Returned (), Some c')"
    if "f \<in> {initAudio, initAudio_index}" and api: "has_AudioContext plat \<or> has_webkitAudioContext plat" for f
    using that(1) initAudio_first[OF api]
    by (auto simp: initAudio_existing resume_def new_context_def)
  show ?thesis using a b c1 c2 by blast
qed

text \<open>C7, an instance: an initialized engine, a running context, and a first call of the hook.\<close>

theorem init_idempotent_resume_in_hook_only_witness:
  "initialized (snd (init \<lparr>has_AudioContext = True, has_webkitAudioContext = False, starts = Running\<rparr> new_engine)) \<and>
   (has_AudioContext \<lparr>has_AudioContext = True, has_webkitAudioContext = False, starts = Suspended\<rparr> \<or>
    has_webkitAudioContext \<lparr>has_AudioContext = True, has_webkitAudioContext = False, starts = Suspended\<rparr>) \<and>
   initAudio \<in> {initAudio, initAudio_index} \<and>
   ctx_state \<lparr>ctx_state = Running, currentTime = 3, nodes = [], connections = []\<rparr> \<noteq> Suspended \<and>
   init \<lparr>has_AudioContext = True, has_webkitAudioContext = False, starts = Suspended\<rparr>
     (snd (init \<lparr>has_AudioContext = True, has_webkitAudioContext = False, starts = Running\<rparr> new_engine))
     = (Returned (),
        snd (init \<lparr>has_AudioContext = True, has_webkitAudioContext = False, starts = Running\<rparr> new_engine)) \<and>
   initialized (snd (init \<lparr>has_AudioContext = True, has_webkitAudioContext = False, starts = Suspended\<rparr> new_engine)) \<and>
   initAudio \<lparr>has_AudioContext = True, has_webkitAudioContext = False, starts = Suspended\<rparr>
       (Some \<lparr>ctx_state = Running, currentTime = 3, nodes = [], connections = []\<rparr>)
     = (Returned (), Some \<lparr>ctx_state = Running, currentTime = 3, nodes = [], connections = []\<rparr>) \<and>
   (\<exists>c'. initAudio \<lparr>has_AudioContext = True, has_webkitAudioContext = False, starts = Suspended\<rparr> None
            = (Returned (), Some c') \<and> ctx_state c' \<noteq> Suspended)"
proof -
  let ?r = "\<lparr>has_AudioContext = True, has_webkitAudioContext = False, starts = Running\<rparr>"
  let ?s = "\<lparr>has_AudioContext = True, has_webkitAudioContext = False, starts = Suspended\<rparr>"
  let ?c = "\<lparr>ctx_state = Running, currentTime = 3, nodes = [], connections = []\<rparr>"
  have i: "initialized (snd (init ?r new_engine))" unfolding init_running by simp
  note t = init_idempotent_resume_in_hook_only[of "snd (init ?r new_engine)" ?s ?s ?c]
  have 1: "init ?s (snd (init ?r new_engine)) = (Returned (), snd (init ?r new_engine))"
    using t i by blast
  have 2: "initialized (snd (init ?s new_engine))" using t by simp
  have "\<exists>c'. initAudio ?s (Some ?c) = (Returned (), Some c') \<and> (ctx_state ?c \<noteq> Suspended \<longrightarrow> c' = ?c)"
    using t by blast
  then have 3: "initAudio ?s (Some ?c) = (Returned (), Some ?c)" by auto
  have 4: "\<exists>c'. initAudio ?s None = (Returned (), Some c') \<and> ctx_state c' \<noteq> Suspended"
    using t by auto
  show ?thesis using i 1 2 3 4 by simp
qed

text \<open>
  C7 as stated fails for \<^verbatim>\<open>AudioEngine.init\<close>: where a new context starts suspended, the
  context is still suspended after the first call and after the second.
\<close>

theorem init_never_resumes_counterexample:
  "init \<lparr>has_AudioContext = True, has_webkitAudioContext = False, starts = Suspended\<rparr>
     (snd (init \<lparr>has_AudioContext = True, has_webkitAudioContext = False, starts = Suspended\<rparr> new_engine))
     = (Returned (),
        snd (init \<lparr>has_AudioContext = True, has_webkitAudioContext = False, starts = Suspended\<rparr> new_engine)) \<and>
   map_option ctx_state
     (ctx (snd (init \<lparr>has_AudioContext = True, has_webkitAudioContext = False, starts = Suspended\<rparr>
        (snd (init \<lparr>has_AudioContext = True, has_webkitAudioContext = False, starts = Suspended\<rparr> new_engine)))))
     = Some Suspended"
proof -
  let ?s = "\<lparr>has_AudioContext = True, has_webkitAudioContext = False, starts = Suspended\<rparr>"
  define e where "e = snd (init ?s new_engine)"
  have i: "initialized e" and c: "map_option ctx_state (ctx e) = Some Suspended"
    unfolding e_def init_running by simp_all
  have r: "init ?s e = (Returned (), e)" using i by (simp add: init_def)
  show ?thesis unfolding e_def[symmetric] r using c by simp
qed

end
